theory Spec2Isabelle
  imports Main
begin

section \<open>JavaScript values\<close>

text \<open>
  The admin code is TypeScript running as JavaScript: a field's value, the body of a
  response and the argument of \<open>setValue\<close> are arbitrary JavaScript values. A number
  \<open>JNum m e\<close> stands for \<open>m * 10 ^ e\<close>; \<open>NaN\<close>, the infinities and the rounding of
  doubles are not represented. A string is a list of bytes. An object is the list of its own
  properties in insertion order, with no key twice.
\<close>

datatype jsvalue =
    JUndefined
  | JNull
  | JBool bool
  | JNum int int
  | JStr string
  | JArr "jsvalue list"
  | JObj "(string \<times> jsvalue) list"

text \<open>A thrown exception or a rejected promise is a value of this type.\<close>

datatype js_error = SyntaxError | TypeError | NetworkError | GenericError

text \<open>\<open>ToBoolean\<close>: what \<open>!v\<close>, \<open>v && w\<close>, \<open>if (v)\<close> and \<open>Boolean(v)\<close> test.\<close>

fun truthy :: "jsvalue \<Rightarrow> bool" where
  "truthy JUndefined = False"
| "truthy JNull = False"
| "truthy (JBool b) = b"
| "truthy (JNum m e) = (m \<noteq> 0)"
| "truthy (JStr s) = (s \<noteq> [])"
| "truthy (JArr xs) = True"
| "truthy (JObj kvs) = True"

text \<open>
  \<open>v.k\<close> on a value that is neither \<open>null\<close> nor \<open>undefined\<close>, for a key \<open>k\<close> that no
  prototype defines (\<open>target\<close>, \<open>value\<close>, \<open>docs\<close>, \<open>updatedAt\<close>): an object answers with
  its own property, every other value with \<open>undefined\<close>.
\<close>

fun get_prop :: "jsvalue \<Rightarrow> string \<Rightarrow> jsvalue" where
  "get_prop (JObj kvs) k = (case map_of kvs k of None \<Rightarrow> JUndefined | Some v \<Rightarrow> v)"
| "get_prop v k = JUndefined"

subsection \<open>Document ids\<close>

text \<open>
  A document id is a string or a number (\<open>TypeWithID\<close>: \<open>id: string | number\<close>); the
  provider's \<open>id\<close> prop is optional, \<open>None\<close> standing for \<open>undefined\<close>. A numeric id is
  an integer.
\<close>

datatype doc_id = IdString string | IdNumber int

text \<open>\<open>if (id)\<close>: the empty string and zero are falsy, as \<open>undefined\<close> is.\<close>

fun id_truthy :: "doc_id option \<Rightarrow> bool" where
  "id_truthy None = False"
| "id_truthy (Some (IdString s)) = (s \<noteq> [])"
| "id_truthy (Some (IdNumber n)) = (n \<noteq> 0)"

text \<open>The decimal digits of a number, least significant digit first onto the accumulator.\<close>

definition digit_char :: "nat \<Rightarrow> char" where
  "digit_char d = char_of (48 + d)"

fun nat_to_decimal :: "nat \<Rightarrow> string \<Rightarrow> string" where
  "nat_to_decimal n acc =
     (if n div 10 = 0 then digit_char n # acc
      else nat_to_decimal (n div 10) (digit_char (n mod 10) # acc))"

declare nat_to_decimal.simps [simp del]

text \<open>
  \<open>Number.prototype.toString\<close> on an integer. A safe integer (absolute value below
  \<open>2 ^ 53\<close>) is printed with its decimal digits. Beyond that the digits printed are those
  of the nearest double, in exponent notation from \<open>10 ^ 21\<close> on: such a number is outside
  the model, and the result is \<open>None\<close>.
\<close>

definition Number_toString :: "int \<Rightarrow> string option" where
  "Number_toString i =
     (if \<bar>i\<bar> < 2 ^ 53
      then Some (if 0 \<le> i then nat_to_decimal (nat i) []
                 else CHR ''-'' # nat_to_decimal (nat (- i)) [])
      else None)"

text \<open>\<open>`${id}`\<close> inside a template literal; \<open>None\<close> for a number outside the model.\<close>

fun id_to_string :: "doc_id option \<Rightarrow> string option" where
  "id_to_string None = Some ''undefined''"
| "id_to_string (Some (IdString s)) = Some s"
| "id_to_string (Some (IdNumber n)) = Number_toString n"

section \<open>The field binding \<open>useField\<close>\<close>

text \<open>
  One entry of the Field Value Store, as \<open>useField\<close> reads it: \<open>field?.value\<close>,
  \<open>field?.initialValue\<close>, \<open>field?.valid\<close>, \<open>field?.errorMessage\<close>. A key the entry
  does not have reads as \<open>JUndefined\<close>.
\<close>

record field =
  f_value :: jsvalue
  f_initialValue :: jsvalue
  f_valid :: jsvalue
  f_errorMessage :: jsvalue

type_synonym fields = "string \<rightharpoonup> field"

text \<open>
  \<open>const valid = typeof field?.valid === 'boolean' ? field.valid : true\<close>, where
  \<open>field = fields[path]\<close> is \<open>None\<close> when the store has no entry for the path.
\<close>

fun useField_valid :: "field option \<Rightarrow> bool" where
  "useField_valid None = True"
| "useField_valid (Some f) = (case f_valid f of JBool b \<Rightarrow> b | _ \<Rightarrow> True)"

text \<open>\<open>const value = field?.value\<close> and \<open>const initialValue = field?.initialValue\<close>.\<close>

fun useField_value :: "field option \<Rightarrow> jsvalue" where
  "useField_value None = JUndefined"
| "useField_value (Some f) = f_value f"

fun useField_initialValue :: "field option \<Rightarrow> jsvalue" where
  "useField_initialValue None = JUndefined"
| "useField_initialValue (Some f) = f_initialValue f"

text \<open>\<open>const showError = valid === false && submitted\<close>.\<close>

definition showError :: "field option \<Rightarrow> bool \<Rightarrow> bool" where
  "showError fld submitted = (useField_valid fld = False \<and> submitted)"


subsection \<open>Options, context and actions\<close>

text \<open>
  The validation function's contract, \<open>(value, { id, user, data, siblingData, operation })\<close>.
  It is awaited: \<open>Inl\<close> is a validator that throws or whose promise rejects, \<open>Inr\<close> the
  value it resolves to.
\<close>

record validate_options =
  vo_id :: "doc_id option"
  vo_user :: jsvalue
  vo_data :: jsvalue
  vo_siblingData :: jsvalue
  vo_operation :: jsvalue

type_synonym validate = "jsvalue \<Rightarrow> validate_options \<Rightarrow> js_error + jsvalue"

text \<open>
  \<open>const { path, validate, disableFormData = false, condition } = options\<close>. The condition
  is only passed on, so its type is left open.
\<close>

record 'c options =
  o_path :: string
  o_validate :: "validate option"
  o_disableFormData :: bool
  o_condition :: "'c option"

text \<open>
  What the hooks called at the top of \<open>useField\<close> return in one render. \<open>getData\<close> and
  \<open>getSiblingData\<close> belong to the form and read the store when they are called, so they
  are functions of the store. The two flags say whether \<open>dispatchField\<close> and \<open>setModified\<close>
  are functions.
\<close>

record hooks =
  h_submitted :: bool
  h_processing :: bool
  h_modified :: bool
  h_user :: jsvalue
  h_id :: "doc_id option"
  h_operation :: jsvalue
  h_fields :: fields
  h_dispatchField :: bool
  h_setModified :: bool
  h_getData :: "fields \<Rightarrow> jsvalue"
  h_getSiblingData :: "fields \<Rightarrow> string \<Rightarrow> jsvalue"

text \<open>
  An \<open>UPDATE\<close> action. \<open>setValue\<close> builds it with the keys \<open>type\<close>, \<open>path\<close>, \<open>value\<close>
  and \<open>disableFormData\<close>; the validation builds it with \<open>validate\<close>, \<open>condition\<close>,
  \<open>valid\<close> and \<open>errorMessage\<close> as well. \<open>None\<close> is a key the action does not have.
\<close>

record 'c update_action =
  a_path :: string
  a_value :: jsvalue
  a_disableFormData :: bool
  a_validate :: "validate option option"
  a_condition :: "'c option option"
  a_valid :: "jsvalue option"
  a_errorMessage :: "jsvalue option"

datatype 'c effect = SetModified bool | Dispatch "'c update_action"

subsection \<open>\<open>setValue\<close>\<close>

text \<open>\<open>const val = (e && e.target) ? e.target.value : e\<close>.\<close>

definition setValue_val :: "jsvalue \<Rightarrow> jsvalue" where
  "setValue_val e =
     (if truthy e \<and> truthy (get_prop e ''target'')
      then get_prop (get_prop e ''target'') ''value'' else e)"

text \<open>
  \<open>setValue(e, disableModifyingForm = false)\<close>: the calls it makes, in order, and the
  \<open>TypeError\<close> of calling a \<open>dispatchField\<close> that is not a function.
\<close>

definition setValue :: "'c options \<Rightarrow> hooks \<Rightarrow> jsvalue \<Rightarrow> bool \<Rightarrow> 'c effect list \<times> js_error option" where
  "setValue opts h e disableModifyingForm =
     (let val = setValue_val e;
          marks = (if \<not> h_modified h \<and> \<not> disableModifyingForm
                   then (if h_setModified h then [SetModified True] else [])
                   else [])
      in if h_dispatchField h
         then (marks @ [Dispatch \<lparr>a_path = o_path opts, a_value = val,
                 a_disableFormData = o_disableFormData opts, a_validate = None,
                 a_condition = None, a_valid = None, a_errorMessage = None\<rparr>], None)
         else (marks, Some TypeError))"

subsection \<open>The validation effect\<close>

text \<open>
  The second half of \<open>validateField\<close>, from the resolved \<open>validationResult\<close> on: the action
  is completed and dispatched when \<open>action.valid !== valid\<close> and \<open>dispatchField\<close> is a
  function. The result is the list of actions dispatched.
\<close>

definition validateField_commit :: "'c options \<Rightarrow> hooks \<Rightarrow> jsvalue \<Rightarrow> 'c update_action list" where
  "validateField_commit opts h validationResult =
     (let fld = h_fields h (o_path opts);
          val = useField_value fld;
          valid = useField_valid fld;
          action0 = \<lparr>a_path = o_path opts, a_value = val,
                      a_disableFormData = o_disableFormData opts,
                      a_validate = Some (o_validate opts), a_condition = Some (o_condition opts),
                      a_valid = Some (JBool False), a_errorMessage = Some JUndefined\<rparr>;
          action = (case validationResult of
                      JStr m \<Rightarrow> action0\<lparr>a_errorMessage := Some (JStr m), a_valid := Some (JBool False)\<rparr>
                    | r \<Rightarrow> action0\<lparr>a_valid := Some r, a_errorMessage := Some JUndefined\<rparr>)
      in if a_valid action \<noteq> Some (JBool valid) \<and> h_dispatchField h then [action] else [])"

text \<open>
  \<open>validateField\<close>, the body of the throttled effect: the validation options are built,
  the validator is awaited (\<open>true\<close> when \<open>validate\<close> is not a function), and the result is
  committed. A validator that throws ends the run with nothing dispatched.
\<close>

definition validateField :: "'c options \<Rightarrow> hooks \<Rightarrow> js_error + 'c update_action list" where
  "validateField opts h =
     (let fld = h_fields h (o_path opts);
          val = useField_value fld;
          validateOptions = \<lparr>vo_id = h_id h, vo_user = h_user h,
                              vo_data = h_getData h (h_fields h),
                              vo_siblingData = h_getSiblingData h (h_fields h) (o_path opts),
                              vo_operation = h_operation h\<rparr>
      in case (case o_validate opts of
                 Some validate \<Rightarrow> validate val validateOptions
               | None \<Rightarrow> Inr (JBool True)) of
           Inl err \<Rightarrow> Inl err
         | Inr validationResult \<Rightarrow> Inr (validateField_commit opts h validationResult))"

subsection \<open>The store and the form\<close>

text \<open>
  Modelled from the spec: the reducer of the Field Value Store (\<open>Form/fieldReducer\<close>) is not
  among the sources. The spec has a field state \<open>{ value, initialValue, valid, errorMessage }\<close>
  that is mutated only by dispatched \<open>UPDATE\<close> actions, an action for a value change and one
  carrying \<open>valid\<close> and \<open>errorMessage\<close>: an \<open>UPDATE\<close> overwrites, in the entry at its
  path, the keys it carries and leaves every other key and every other entry as they are.
  An action that carries \<open>valid\<close> is a validation result, and by the spec a validation
  action does not overwrite \<open>value\<close>.
\<close>

definition empty_field :: field where
  "empty_field = \<lparr>f_value = JUndefined, f_initialValue = JUndefined, f_valid = JUndefined,
                    f_errorMessage = JUndefined\<rparr>"

definition fieldReducer :: "fields \<Rightarrow> 'c update_action \<Rightarrow> fields" where
  "fieldReducer flds a =
     (let f = (case flds (a_path a) of None \<Rightarrow> empty_field | Some f \<Rightarrow> f)
      in flds(a_path a \<mapsto>
           f\<lparr>f_value := (case a_valid a of None \<Rightarrow> a_value a | Some v \<Rightarrow> f_value f),
             f_valid := (case a_valid a of None \<Rightarrow> f_valid f | Some v \<Rightarrow> v),
             f_errorMessage := (case a_errorMessage a of None \<Rightarrow> f_errorMessage f | Some m \<Rightarrow> m)\<rparr>))"

text \<open>
  Modelled from the spec: the form's \<open>setModified\<close> (\<open>Form/index\<close>) is not among the
  sources; it marks the form modified, which the next render reads through
  \<open>useFormModified\<close>. A dispatched action goes through the reducer.
\<close>

fun apply_effect :: "hooks \<Rightarrow> 'c effect \<Rightarrow> hooks" where
  "apply_effect h (SetModified b) = h\<lparr>h_modified := b\<rparr>"
| "apply_effect h (Dispatch a) = h\<lparr>h_fields := fieldReducer (h_fields h) a\<rparr>"

text \<open>
  A sequence of \<open>setValue\<close> calls, each made from the render that follows the effects of
  the one before. The result is every call made to \<open>setModified\<close> and \<open>dispatchField\<close>,
  in order, and the context after the last call.
\<close>

fun setValue_calls :: "'c options \<Rightarrow> hooks \<Rightarrow> (jsvalue \<times> bool) list \<Rightarrow> 'c effect list \<times> hooks" where
  "setValue_calls opts h [] = ([], h)"
| "setValue_calls opts h ((e, d) # cs) =
     (let effs = fst (setValue opts h e d);
          r = setValue_calls opts (foldl apply_effect h effs) cs
      in (effs @ fst r, snd r))"

text \<open>
  A sequence of completed validations, one per resolved validation result, each made from
  the render that follows the dispatch of the one before. The result is every action
  dispatched, in order.
\<close>

fun validation_commits :: "'c options \<Rightarrow> hooks \<Rightarrow> jsvalue list \<Rightarrow> 'c update_action list" where
  "validation_commits opts h [] = []"
| "validation_commits opts h (r # rs) =
     (let acts = validateField_commit opts h r
      in acts @ validation_commits opts (h\<lparr>h_fields := foldl fieldReducer (h_fields h) acts\<rparr>) rs)"

text \<open>The validity a validation result stands for: a string is an error message.\<close>

fun result_validity :: "jsvalue \<Rightarrow> jsvalue" where
  "result_validity (JStr m) = JBool False"
| "result_validity r = r"


subsection \<open>A form with one field\<close>

text \<open>
  A form whose store holds the entry \<open>title\<close>, not yet modified or submitted, and the
  options of a required text field, used to evaluate the definitions above.
\<close>

definition example_hooks :: hooks where
  "example_hooks =
     \<lparr>h_submitted = False, h_processing = False, h_modified = False, h_user = JNull,
      h_id = Some (IdString ''42''), h_operation = JStr ''update'',
      h_fields = [''title'' \<mapsto> \<lparr>f_value = JStr [], f_initialValue = JStr ''Hello'',
                                  f_valid = JBool True, f_errorMessage = JUndefined\<rparr>],
      h_dispatchField = True, h_setModified = True,
      h_getData = (\<lambda>flds. JObj [(''title'', useField_value (flds ''title''))]),
      h_getSiblingData = (\<lambda>flds p. JObj [(''title'', useField_value (flds ''title''))])\<rparr>"

definition example_validate :: validate where
  "example_validate v vo = (if truthy v then Inr (JBool True) else Inr (JStr ''This field is required.''))"

definition example_options :: "unit options" where
  "example_options =
     \<lparr>o_path = ''title'', o_validate = Some example_validate, o_disableFormData = False,
      o_condition = None\<rparr>"


section \<open>The rich text field\<close>

subsection \<open>\<open>JSON.parse\<close>\<close>

text \<open>
  \<open>JSON.parse\<close> is a built-in of the host, modelled after the JSON grammar: white space,
  the literals \<open>null\<close>, \<open>true\<close> and \<open>false\<close>, numbers, strings with their escapes, arrays
  and objects. A text that is not JSON throws a \<open>SyntaxError\<close>. Characters are compared by
  their codes; a \<open>\u\<close> escape is stored as the UTF-8 bytes of its code unit.
\<close>

definition is_ws :: "char \<Rightarrow> bool" where
  "is_ws c = (of_char c \<in> {32, 9, 10, 13 :: nat})"

fun skip_ws :: "string \<Rightarrow> string" where
  "skip_ws [] = []"
| "skip_ws (c # cs) = (if is_ws c then skip_ws cs else c # cs)"

definition is_digit :: "char \<Rightarrow> bool" where
  "is_digit c = (48 \<le> (of_char c :: nat) \<and> (of_char c :: nat) \<le> 57)"

definition digits_value :: "string \<Rightarrow> nat" where
  "digits_value ds = foldl (\<lambda>a d. 10 * a + (of_char d - 48)) 0 ds"

definition hex_value :: "char \<Rightarrow> nat option" where
  "hex_value c =
     (let n = (of_char c :: nat)
      in if 48 \<le> n \<and> n \<le> 57 then Some (n - 48)
         else if 65 \<le> n \<and> n \<le> 70 then Some (n - 55)
         else if 97 \<le> n \<and> n \<le> 102 then Some (n - 87)
         else None)"

definition utf8 :: "nat \<Rightarrow> string" where
  "utf8 n =
     (if n < 128 then [char_of n]
      else if n < 2048 then [char_of (192 + n div 64), char_of (128 + n mod 64)]
      else [char_of (224 + n div 4096), char_of (128 + n div 64 mod 64), char_of (128 + n mod 64)])"

text \<open>The escape after a backslash: the bytes it stands for and the rest of the text.\<close>

definition parse_escape :: "string \<Rightarrow> (string \<times> string) option" where
  "parse_escape cs =
     (case cs of
        [] \<Rightarrow> None
      | e # r \<Rightarrow>
          (let n = (of_char e :: nat)
           in if n = 34 \<or> n = 92 \<or> n = 47 then Some ([e], r)
              else if n = 98 then Some ([char_of (8 :: nat)], r)
              else if n = 102 then Some ([char_of (12 :: nat)], r)
              else if n = 110 then Some ([char_of (10 :: nat)], r)
              else if n = 114 then Some ([char_of (13 :: nat)], r)
              else if n = 116 then Some ([char_of (9 :: nat)], r)
              else if n = 117 then
                (case r of
                   a # b # c # d # r' \<Rightarrow>
                     (case (hex_value a, hex_value b, hex_value c, hex_value d) of
                        (Some x, Some y, Some z, Some w) \<Rightarrow>
                          Some (utf8 (4096 * x + 256 * y + 16 * z + w), r')
                      | _ \<Rightarrow> None)
                 | _ \<Rightarrow> None)
              else None))"

text \<open>
  A string after its opening quote, up to the closing quote. The fuel is the number of
  characters it may read.
\<close>

fun parse_string :: "nat \<Rightarrow> string \<Rightarrow> (string \<times> string) option" where
  "parse_string 0 cs = None"
| "parse_string (Suc n) [] = None"
| "parse_string (Suc n) (c # cs) =
     (if (of_char c :: nat) = 34 then Some ([], cs)
      else if (of_char c :: nat) < 32 then None
      else if (of_char c :: nat) = 92 then
        (case parse_escape cs of
           None \<Rightarrow> None
         | Some (bs, r) \<Rightarrow>
             (case parse_string n r of None \<Rightarrow> None | Some (s, r') \<Rightarrow> Some (bs @ s, r')))
      else (case parse_string n cs of None \<Rightarrow> None | Some (s, r') \<Rightarrow> Some (c # s, r')))"

text \<open>
  A number: an optional minus, an integer part without a leading zero, an optional
  fraction and an optional exponent.
\<close>

definition parse_number :: "string \<Rightarrow> (jsvalue \<times> string) option" where
  "parse_number cs =
     (let neg = (cs \<noteq> [] \<and> (of_char (hd cs) :: nat) = 45);
          cs1 = (if neg then tl cs else cs);
          ip = (if cs1 \<noteq> [] \<and> (of_char (hd cs1) :: nat) = 48 then [hd cs1]
                else takeWhile is_digit cs1);
          cs2 = drop (length ip) cs1;
          has_frac = (cs2 \<noteq> [] \<and> (of_char (hd cs2) :: nat) = 46);
          fp = (if has_frac then takeWhile is_digit (tl cs2) else []);
          cs3 = (if has_frac then drop (length fp) (tl cs2) else cs2);
          has_exp = (cs3 \<noteq> [] \<and> (of_char (hd cs3) :: nat) \<in> {101, 69});
          cs4 = (if has_exp then tl cs3 else cs3);
          eneg = (has_exp \<and> cs4 \<noteq> [] \<and> (of_char (hd cs4) :: nat) = 45);
          cs5 = (if has_exp \<and> cs4 \<noteq> [] \<and> (of_char (hd cs4) :: nat) \<in> {43, 45}
                 then tl cs4 else cs4);
          ep = (if has_exp then takeWhile is_digit cs5 else []);
          cs6 = drop (length ep) cs5;
          m = int (digits_value (ip @ fp));
          e = (if eneg then - int (digits_value ep) else int (digits_value ep)) - int (length fp)
      in if ip = [] \<or> (has_frac \<and> fp = []) \<or> (has_exp \<and> ep = []) then None
         else Some (JNum (if neg then - m else m) e, cs6))"

text \<open>A property set on an object: a key it has keeps its place and takes the new value.\<close>

fun obj_set :: "(string \<times> 'a) list \<Rightarrow> string \<Rightarrow> 'a \<Rightarrow> (string \<times> 'a) list" where
  "obj_set [] k v = [(k, v)]"
| "obj_set ((k', v') # kvs) k v = (if k' = k then (k, v) # kvs else (k', v') # obj_set kvs k v)"

text \<open>
  A value, the elements of an array after its opening bracket and the members of an
  object after its opening brace. The fuel bounds the depth of the calls.
\<close>

fun parse_value :: "nat \<Rightarrow> string \<Rightarrow> (jsvalue \<times> string) option"
  and parse_elements :: "nat \<Rightarrow> string \<Rightarrow> (jsvalue list \<times> string) option"
  and parse_members :: "nat \<Rightarrow> string \<Rightarrow> ((string \<times> jsvalue) list \<times> string) option" where
  "parse_value 0 cs = None"
| "parse_value (Suc n) cs =
     (case skip_ws cs of
        [] \<Rightarrow> None
      | c # r \<Rightarrow>
          (if take 4 (c # r) = ''null'' then Some (JNull, drop 4 (c # r))
           else if take 4 (c # r) = ''true'' then Some (JBool True, drop 4 (c # r))
           else if take 5 (c # r) = ''false'' then Some (JBool False, drop 5 (c # r))
           else if (of_char c :: nat) = 34 then
             (case parse_string (length r) r of
                None \<Rightarrow> None
              | Some (s, r') \<Rightarrow> Some (JStr s, r'))
           else if (of_char c :: nat) = 91 then
             (case skip_ws r of
                [] \<Rightarrow> None
              | c' # r' \<Rightarrow>
                  (if (of_char c' :: nat) = 93 then Some (JArr [], r')
                   else (case parse_elements n (c' # r') of
                           None \<Rightarrow> None
                         | Some (vs, r'') \<Rightarrow> Some (JArr vs, r''))))
           else if (of_char c :: nat) = 123 then
             (case skip_ws r of
                [] \<Rightarrow> None
              | c' # r' \<Rightarrow>
                  (if (of_char c' :: nat) = 125 then Some (JObj [], r')
                   else (case parse_members n (c' # r') of
                           None \<Rightarrow> None
                         | Some (kvs, r'') \<Rightarrow>
                             Some (JObj (foldl (\<lambda>ob (k, v). obj_set ob k v) [] kvs), r''))))
           else parse_number (c # r)))"
| "parse_elements 0 cs = None"
| "parse_elements (Suc n) cs =
     (case parse_value n cs of
        None \<Rightarrow> None
      | Some (v, r) \<Rightarrow>
          (case skip_ws r of
             [] \<Rightarrow> None
           | c # r' \<Rightarrow>
               (if (of_char c :: nat) = 93 then Some ([v], r')
                else if (of_char c :: nat) = 44 then
                  (case parse_elements n r' of
                     None \<Rightarrow> None
                   | Some (vs, r'') \<Rightarrow> Some (v # vs, r''))
                else None)))"
| "parse_members 0 cs = None"
| "parse_members (Suc n) cs =
     (case skip_ws cs of
        [] \<Rightarrow> None
      | q # r \<Rightarrow>
          (if (of_char q :: nat) \<noteq> 34 then None
           else (case parse_string (length r) r of
                   None \<Rightarrow> None
                 | Some (k, r1) \<Rightarrow>
                     (case skip_ws r1 of
                        [] \<Rightarrow> None
                      | c # r2 \<Rightarrow>
                          (if (of_char c :: nat) \<noteq> 58 then None
                           else (case parse_value n r2 of
                                   None \<Rightarrow> None
                                 | Some (v, r3) \<Rightarrow>
                                     (case skip_ws r3 of
                                        [] \<Rightarrow> None
                                      | c' # r4 \<Rightarrow>
                                          (if (of_char c' :: nat) = 125 then Some ([(k, v)], r4)
                                           else if (of_char c' :: nat) = 44 then
                                             (case parse_members n r4 of
                                                None \<Rightarrow> None
                                              | Some (kvs, r5) \<Rightarrow> Some ((k, v) # kvs, r5))
                                           else None))))))))"

text \<open>
  \<open>JSON.parse(text)\<close>: one value, with nothing but white space after it. The length of
  the text is the fuel: every nested call has read at least one character.
\<close>

definition JSON_parse :: "string \<Rightarrow> js_error + jsvalue" where
  "JSON_parse s =
     (case parse_value (Suc (length s)) s of
        None \<Rightarrow> Inl SyntaxError
      | Some (v, r) \<Rightarrow> (if skip_ws r = [] then Inr v else Inl SyntaxError))"

subsection \<open>The value handed to the editor\<close>

text \<open>
  Modelled from the spec: \<open>fields/richText/defaultValue\<close> is not among the sources; the
  spec calls it the default single-empty-paragraph document.
\<close>

definition defaultValue :: jsvalue where
  "defaultValue = JArr [JObj [(''children'', JArr [JObj [(''text'', JStr [])]])]]"

text \<open>
  Lines 336 to 346 of the rich text field: a string value is parsed, a failed parse is
  caught and leaves the value as it was, and a falsy value is replaced by the default. No
  statement outside the \<open>try\<close> block can throw, so the result is always \<open>Inr\<close>. The
  result is what line 369 hands to the editor, \<open>value={valueToRender as any[]}\<close>.
\<close>

definition valueToRender :: "jsvalue \<Rightarrow> js_error + jsvalue" where
  "valueToRender val =
     (let parsed = (case val of
                      JStr s \<Rightarrow> (case JSON_parse s of Inr parsedJSON \<Rightarrow> parsedJSON | Inl err \<Rightarrow> val)
                    | _ \<Rightarrow> val)
      in Inr (if \<not> truthy parsed then defaultValue else parsed))"

text \<open>\<open>Array.isArray\<close>: the editor takes a list of nodes.\<close>

fun Array_isArray :: "jsvalue \<Rightarrow> bool" where
  "Array_isArray (JArr xs) = True"
| "Array_isArray v = False"


subsection \<open>The document tree and the Backspace key\<close>

text \<open>
  The value of the editor is a tree: a text leaf has its text and its marks, an element
  has an optional \<open>type\<close> and its children. One character of a text is one code unit, so
  \<open>length\<close> is the \<open>length\<close> of the source. The selection is a cursor, anchor and focus
  being the same point; a point is the path of a text leaf and an offset in it.
\<close>

datatype node = Text string "string list" | Element "string option" "node list"

record point =
  pt_path :: "nat list"
  pt_offset :: nat

record editor =
  ed_children :: "node list"
  ed_selection :: "point option"

text \<open>
  \<open>Node.descendant(editor, path)\<close>: the node at a path below the root. It throws for
  the empty path, which is the editor itself, and for a path that leads nowhere.
\<close>

fun descendant :: "node list \<Rightarrow> nat list \<Rightarrow> node option" where
  "descendant ns [] = None"
| "descendant ns [k] = (if k < length ns then Some (ns ! k) else None)"
| "descendant ns (k # j # p) =
     (if k < length ns
      then (case ns ! k of Element t cs \<Rightarrow> descendant cs (j # p) | Text s ms \<Rightarrow> None)
      else None)"

text \<open>The calls the key handler makes on \<open>Transforms\<close>, with their options.\<close>

datatype transform =
    UnwrapNodes "string list" bool
  | SetNodes "(string \<times> jsvalue) list"
  | RemoveNodes

text \<open>\<open>SlateElement.isElement(n) && n.type === 'li'\<close>.\<close>

fun is_li :: "node \<Rightarrow> bool" where
  "is_li (Element (Some t) cs) = (t = ''li'')"
| "is_li n = False"

text \<open>
  Lines 461 to 477, the block of \<open>onKeyDown\<close> for \<open>event.key === 'Backspace'\<close>. The list
  types (\<open>./elements/listTypes\<close>) and \<open>editor.isVoid\<close>, which the plugins define, are
  parameters. \<open>UnwrapNodes listTypes True\<close> is the call with the match
  \<open>listTypes.includes(n.type)\<close> on elements and \<open>split: true\<close>.
\<close>

definition onKeyDown_Backspace :: "string list \<Rightarrow> (node \<Rightarrow> bool) \<Rightarrow> editor \<Rightarrow> js_error + transform list" where
  "onKeyDown_Backspace listTypes isVoid editor =
     (case ed_selection editor of
        None \<Rightarrow> Inl TypeError
      | Some anchor \<Rightarrow>
          (case descendant (ed_children editor) (butlast (pt_path anchor)) of
             None \<Rightarrow> Inl GenericError
           | Some selectedElement \<Rightarrow>
               (if is_li selectedElement
                then (case descendant (ed_children editor) (pt_path anchor) of
                        None \<Rightarrow> Inl GenericError
                      | Some (Text s ms) \<Rightarrow>
                          (if length s = 1 then Inr [UnwrapNodes listTypes True, SetNodes []]
                           else Inr [])
                      | Some (Element t cs) \<Rightarrow> Inr [])
                else if isVoid selectedElement then Inr [RemoveNodes]
                else Inr [])))"

subsection \<open>\<open>Transforms.unwrapNodes\<close> with \<open>split: true\<close>\<close>

text \<open>
  The transform belongs to the Slate library, which is not part of the repository. It is
  modelled after the library for a cursor: among the elements on the path of the cursor
  the lowest one that matches is taken, and its child on that path is lifted out of it.
  Lifting moves the child before the element when it is the first child, after it when it
  is the last, splits the element around it otherwise, and removes the element when the
  child was its only one. The cursor follows the child. The normalisation that the
  editor runs afterwards is not modelled.
\<close>

fun is_listType :: "string list \<Rightarrow> node \<Rightarrow> bool" where
  "is_listType types (Element (Some t) cs) = (t \<in> set types)"
| "is_listType types n = False"

fun lowest_match :: "(node \<Rightarrow> bool) \<Rightarrow> node list \<Rightarrow> nat list \<Rightarrow> nat list option" where
  "lowest_match m ns [] = None"
| "lowest_match m ns (k # p) =
     (if k < length ns
      then (case (case ns ! k of Element t cs \<Rightarrow> lowest_match m cs p | Text s ms \<Rightarrow> None) of
              Some q \<Rightarrow> Some (k # q)
            | None \<Rightarrow> (if m (ns ! k) \<and> p \<noteq> [] then Some [k] else None))
      else None)"

text \<open>The node at a path replaced by a list of nodes.\<close>

fun splice :: "node list \<Rightarrow> nat list \<Rightarrow> node list \<Rightarrow> node list" where
  "splice ns [] new = ns"
| "splice ns [k] new = (if k < length ns then take k ns @ new @ drop (Suc k) ns else ns)"
| "splice ns (k # j # p) new =
     (if k < length ns
      then (case ns ! k of
              Element t cs \<Rightarrow> ns[k := Element t (splice cs (j # p) new)]
            | Text s ms \<Rightarrow> ns)
      else ns)"

text \<open>What lifting the child \<open>i\<close> out of an element leaves in the element's place.\<close>

definition lifted :: "string option \<Rightarrow> node list \<Rightarrow> nat \<Rightarrow> node list" where
  "lifted t items i =
     (if i = 0 then [] else [Element t (take i items)])
     @ [items ! i]
     @ (if Suc i = length items then [] else [Element t (drop (Suc i) items)])"

definition unwrapNodes :: "string list \<Rightarrow> editor \<Rightarrow> editor" where
  "unwrapNodes types ed =
     (case ed_selection ed of
        None \<Rightarrow> ed
      | Some pt \<Rightarrow>
          (case lowest_match (is_listType types) (ed_children ed) (pt_path pt) of
             None \<Rightarrow> ed
           | Some q \<Rightarrow>
               (case descendant (ed_children ed) q of
                  Some (Element t items) \<Rightarrow>
                    (let i = pt_path pt ! length q
                     in if i < length items
                        then ed\<lparr>ed_children := splice (ed_children ed) q (lifted t items i),
                                ed_selection := Some (pt\<lparr>pt_path :=
                                  butlast q @ [last q + (if i = 0 then 0 else 1)]
                                    @ drop (Suc (length q)) (pt_path pt)\<rparr>)\<rparr>
                        else ed)
                | _ \<Rightarrow> ed)))"

text \<open>
  The editor after the calls of the handler. The two calls of the list item branch are
  modelled: \<open>unwrapNodes\<close> with \<open>split: true\<close>, and \<open>setNodes\<close> with an empty object, which
  sets no property and leaves the editor as it is. \<open>None\<close> is a call outside the model.
\<close>

fun apply_transform :: "transform \<Rightarrow> editor \<Rightarrow> editor option" where
  "apply_transform (UnwrapNodes types True) ed = Some (unwrapNodes types ed)"
| "apply_transform (SetNodes []) ed = Some ed"
| "apply_transform tr ed = None"

fun apply_transforms :: "transform list \<Rightarrow> editor \<Rightarrow> editor option" where
  "apply_transforms [] ed = Some ed"
| "apply_transforms (tr # trs) ed =
     (case apply_transform tr ed of None \<Rightarrow> None | Some ed' \<Rightarrow> apply_transforms trs ed')"

definition after_Backspace :: "string list \<Rightarrow> (node \<Rightarrow> bool) \<Rightarrow> editor \<Rightarrow> js_error + editor option" where
  "after_Backspace listTypes isVoid ed =
     (case onKeyDown_Backspace listTypes isVoid ed of
        Inl err \<Rightarrow> Inl err
      | Inr trs \<Rightarrow> Inr (apply_transforms trs ed))"

text \<open>The texts of the document in document order, and the items a node stands for.\<close>

fun leaves_node :: "node \<Rightarrow> string list" where
  "leaves_node (Text s ms) = [s]"
| "leaves_node (Element t cs) = concat (map leaves_node cs)"

definition leaves :: "node list \<Rightarrow> string list" where
  "leaves ns = concat (map leaves_node ns)"

fun items_of :: "string list \<Rightarrow> node \<Rightarrow> node list" where
  "items_of types (Element t cs) = (if is_listType types (Element t cs) then cs else [Element t cs])"
| "items_of types n = [n]"

text \<open>
  A paragraph followed by a list of three items, the cursor after the only character of
  the second item.
\<close>

definition example_editor :: editor where
  "example_editor =
     \<lparr>ed_children =
        [Element None [Text ''Intro'' []],
         Element (Some ''ul'')
           [Element (Some ''li'') [Text ''one'' []],
            Element (Some ''li'') [Text ''2'' []],
            Element (Some ''li'') [Text ''three'' [''bold'']]]],
      ed_selection = Some \<lparr>pt_path = [1, 1, 0], pt_offset = 1\<rparr>\<rparr>"


subsection \<open>Read-only mode\<close>

text \<open>
  The effect of lines 307 to 330 works on the DOM. An element has a tag name and
  attributes; \<open>toolbarRef.current\<close> and \<open>editorRef.current\<close> are each the list of the
  elements below the referenced node, in document order, or \<open>None\<close> when the ref is null.
\<close>

record dom_element =
  el_tagName :: string
  el_attributes :: "(string \<times> string) list"

record dom =
  toolbarRef :: "dom_element list option"
  editorRef :: "dom_element list option"

text \<open>
  \<open>element.setAttribute(name, value)\<close> in an HTML document: the name is lowercased and the
  value is converted to a string, \<open>null\<close> becoming the string \<open>null\<close>.
\<close>

datatype attr_value = AString string | ANull

definition ascii_lower :: "char \<Rightarrow> char" where
  "ascii_lower c =
     (if 65 \<le> (of_char c :: nat) \<and> (of_char c :: nat) \<le> 90 then char_of (of_char c + 32 :: nat) else c)"

definition setAttribute :: "string \<Rightarrow> attr_value \<Rightarrow> dom_element \<Rightarrow> dom_element" where
  "setAttribute name v el =
     el\<lparr>el_attributes := obj_set (el_attributes el) (map ascii_lower name)
                              (case v of AString s \<Rightarrow> s | ANull \<Rightarrow> ''null'')\<rparr>"

text \<open>
  \<open>disabled\<close> is a boolean attribute: a button is disabled when the attribute is present,
  whatever its value.
\<close>

definition is_disabled :: "dom_element \<Rightarrow> bool" where
  "is_disabled el = (el_tagName el = ''BUTTON'' \<and> map_of (el_attributes el) ''disabled'' \<noteq> None)"

text \<open>The selector list \<open>button, a, [role="button"]\<close>.\<close>

definition matches_selectors :: "dom_element \<Rightarrow> bool" where
  "matches_selectors el =
     (el_tagName el = ''BUTTON'' \<or> el_tagName el = ''A''
      \<or> map_of (el_attributes el) ''role'' = Some ''button'')"

datatype clickState = Disabled | Enabled

text \<open>The body of the \<open>forEach\<close> of \<open>setClickableState\<close>, for one matched element.\<close>

definition setClickable_child :: "clickState \<Rightarrow> dom_element \<Rightarrow> dom_element" where
  "setClickable_child clickState child =
     (let isButton = (el_tagName child = ''BUTTON'');
          isDisabling = (clickState = Disabled);
          child' = setAttribute ''tabIndex'' (AString (if isDisabling then ''-1'' else ''0'')) child
      in if isButton
         then setAttribute ''disabled'' (if isDisabling then AString ''disabled'' else ANull) child'
         else child')"

text \<open>
  \<open>setClickableState\<close>: \<open>querySelectorAll\<close> on both refs, a \<open>TypeError\<close> when one is null,
  then every matched element is updated in place.
\<close>

definition setClickableState :: "clickState \<Rightarrow> dom \<Rightarrow> js_error + dom" where
  "setClickableState clickState d =
     (case toolbarRef d of
        None \<Rightarrow> Inl TypeError
      | Some toolbar \<Rightarrow>
          (case editorRef d of
             None \<Rightarrow> Inl TypeError
           | Some editor \<Rightarrow>
               (let update = map (\<lambda>el. if matches_selectors el
                                         then setClickable_child clickState el else el)
                in Inr \<lparr>toolbarRef = Some (update toolbar), editorRef = Some (update editor)\<rparr>)))"

text \<open>
  The effect of \<open>[loaded, readOnly]\<close> and the cleanup it returns, which runs when read-only
  mode is left or the field unmounts, with the \<open>loaded\<close> and \<open>readOnly\<close> of the effect.
\<close>

definition readOnly_effect :: "bool \<Rightarrow> bool \<Rightarrow> dom \<Rightarrow> js_error + dom" where
  "readOnly_effect loaded readOnly d =
     (if loaded \<and> readOnly then setClickableState Disabled d else Inr d)"

definition readOnly_cleanup :: "bool \<Rightarrow> bool \<Rightarrow> dom \<Rightarrow> js_error + dom" where
  "readOnly_cleanup loaded readOnly d =
     (if loaded \<and> readOnly then setClickableState Enabled d else Inr d)"

definition readOnly_enter_then_exit :: "dom \<Rightarrow> js_error + dom" where
  "readOnly_enter_then_exit d =
     (case readOnly_effect True True d of
        Inl err \<Rightarrow> Inl err
      | Inr d' \<Rightarrow> readOnly_cleanup True True d')"

text \<open>A toolbar with one button and an editor with one link, both as rendered.\<close>

definition example_dom :: dom where
  "example_dom =
     \<lparr>toolbarRef = Some [\<lparr>el_tagName = ''BUTTON'', el_attributes = [(''type'', ''button'')]\<rparr>],
      editorRef = Some [\<lparr>el_tagName = ''A'', el_attributes = [(''href'', ''/admin'')]\<rparr>]\<rparr>"

section \<open>The document info provider\<close>

text \<open>
  What the provider reads of the \<open>global\<close> and \<open>collection\<close> props: the slug and the
  \<open>versions\<close> setting (a boolean or an object of options). Each prop is optional.
\<close>

record global_config =
  g_slug :: string
  g_versions :: jsvalue

record collection_config =
  c_slug :: string
  c_versions :: jsvalue

text \<open>
  Lines 29 to 46 of the provider: \<open>let slug; let type; let preferencesKey;\<close> and the two
  \<open>if\<close> blocks that assign them, in the source's order. The result is \<open>None\<close> only when
  the id is a number outside the model.
\<close>

record document_keys =
  k_slug :: "string option"
  k_type :: "string option"
  k_preferencesKey :: "string option"

definition documentInfo_keys :: "global_config option \<Rightarrow> collection_config option \<Rightarrow> doc_id option \<Rightarrow> document_keys option" where
  "documentInfo_keys global collection ident =
     (let k0 = \<lparr>k_slug = None, k_type = None, k_preferencesKey = None\<rparr>;
          k1 = (case global of
                  None \<Rightarrow> k0
                | Some g \<Rightarrow> \<lparr>k_slug = Some (g_slug g), k_type = Some ''global'',
                             k_preferencesKey = Some (''global-'' @ g_slug g)\<rparr>)
      in case collection of
           None \<Rightarrow> Some k1
         | Some c \<Rightarrow>
             (let k2 = k1\<lparr>k_slug := Some (c_slug c), k_type := Some ''collection''\<rparr>
              in if id_truthy ident
                 then (case id_to_string ident of
                         None \<Rightarrow> None
                       | Some printed \<Rightarrow>
                           Some (k2\<lparr>k_preferencesKey :=
                                   Some (''collection-'' @ c_slug c @ ''-'' @ printed)\<rparr>))
                 else Some k2))"

text \<open>
  The exposed \<open>preferencesKey\<close>: \<open>Some (Some key)\<close> is a key, \<open>Some None\<close> is
  \<open>undefined\<close>.
\<close>

definition preferencesKey :: "global_config option \<Rightarrow> collection_config option \<Rightarrow> doc_id option \<Rightarrow> string option option" where
  "preferencesKey global collection ident =
     map_option k_preferencesKey (documentInfo_keys global collection ident)"


subsection \<open>Requests and responses\<close>

text \<open>
  \<open>getVersions\<close> talks to the API through \<open>fetch\<close>. A request is the URL up to the
  question mark and the object given to \<open>qs.stringify\<close>, \<open>{ where: { and: [...] }, depth }\<close>,
  kept as data: a field constraint \<open>{ k: { op: v } }\<close> is \<open>Cond k op v\<close>. A \<open>let\<close> that
  was never assigned prints as \<open>undefined\<close>, in a template as in the argument of \<open>fetch\<close>.
\<close>

datatype operator = Equals | Exists | Greater_than

datatype constraint = Cond string operator jsvalue | Or "constraint list"

record query_params =
  q_and :: "constraint list"
  q_depth :: nat

record request =
  req_url :: string
  req_params :: "query_params option"

text \<open>
  A response has a status and a body; \<open>res.json()\<close> rejects when the body is not JSON. A
  \<open>fetch\<close> that rejects (a network failure) is \<open>Inl\<close>.
\<close>

record response =
  res_status :: nat
  res_json :: "js_error + jsvalue"

type_synonym fetch = "request \<Rightarrow> js_error + response"

text \<open>The id as it is put in a query: \<open>equals: id\<close>.\<close>

fun id_value :: "doc_id option \<Rightarrow> jsvalue" where
  "id_value None = JUndefined"
| "id_value (Some (IdString s)) = JStr s"
| "id_value (Some (IdNumber n)) = JNum n 0"

text \<open>Optional chaining \<open>v?.k\<close>, and the index \<open>v[0]\<close> of a value that is not nullish.\<close>

definition opt_prop :: "jsvalue \<Rightarrow> string \<Rightarrow> jsvalue" where
  "opt_prop v k = (if v = JNull \<or> v = JUndefined then JUndefined else get_prop v k)"

fun index_0 :: "jsvalue \<Rightarrow> jsvalue" where
  "index_0 (JArr (x # xs)) = x"
| "index_0 (JStr (c # cs)) = JStr [c]"
| "index_0 (JObj kvs) = get_prop (JObj kvs) ''0''"
| "index_0 v = JUndefined"

subsection \<open>\<open>getVersions\<close>\<close>

text \<open>The three pieces of state of the provider, each \<open>useState(null)\<close>.\<close>

record doc_state =
  s_publishedDoc :: jsvalue
  s_versions :: jsvalue
  s_unpublishedVersions :: jsvalue

definition initial_doc_state :: doc_state where
  "initial_doc_state = \<lparr>s_publishedDoc = JNull, s_versions = JNull, s_unpublishedVersions = JNull\<rparr>"

text \<open>
  The values \<open>getVersions\<close> computes before it fetches, in the order of the source: the
  \<open>if (global)\<close> block, then the \<open>if (collection)\<close> block, which overrides it.
\<close>

definition publishedVersionParams :: "collection_config option \<Rightarrow> doc_id option \<Rightarrow> query_params" where
  "publishedVersionParams collection ident =
     \<lparr>q_and = [Or [Cond ''_status'' Equals (JStr ''published''),
                    Cond ''_status'' Exists (JBool False)]]
              @ (case collection of None \<Rightarrow> [] | Some c \<Rightarrow> [Cond ''id'' Equals (id_value ident)]),
      q_depth = 0\<rparr>"

definition versionParams :: "collection_config option \<Rightarrow> doc_id option \<Rightarrow> query_params" where
  "versionParams collection ident =
     \<lparr>q_and = (case collection of None \<Rightarrow> [] | Some c \<Rightarrow> [Cond ''parent'' Equals (id_value ident)]),
      q_depth = 0\<rparr>"

definition shouldFetchVersions :: "global_config option \<Rightarrow> collection_config option \<Rightarrow> bool" where
  "shouldFetchVersions global collection =
     (case collection of
        Some c \<Rightarrow> truthy (c_versions c)
      | None \<Rightarrow> (case global of Some g \<Rightarrow> truthy (g_versions g) | None \<Rightarrow> False))"

definition versionFetchURL :: "string \<Rightarrow> global_config option \<Rightarrow> collection_config option \<Rightarrow> string" where
  "versionFetchURL baseURL global collection =
     (case collection of
        Some c \<Rightarrow> baseURL @ ''/'' @ c_slug c @ ''/versions''
      | None \<Rightarrow> (case global of
                   Some g \<Rightarrow> baseURL @ ''/globals/'' @ g_slug g @ ''/versions''
                 | None \<Rightarrow> ''undefined''))"

definition publishedFetch :: "string \<Rightarrow> global_config option \<Rightarrow> collection_config option \<Rightarrow> doc_id option \<Rightarrow> request" where
  "publishedFetch baseURL global collection ident =
     (case collection of
        Some c \<Rightarrow> \<lparr>req_url = baseURL @ ''/'' @ c_slug c,
                    req_params = Some (publishedVersionParams collection ident)\<rparr>
      | None \<Rightarrow> (case global of
                   Some g \<Rightarrow> \<lparr>req_url = baseURL @ ''/globals/'' @ g_slug g,
                               req_params = Some (publishedVersionParams None ident)\<rparr>
                 | None \<Rightarrow> \<lparr>req_url = ''undefined'', req_params = None\<rparr>))"

definition shouldFetch :: "collection_config option \<Rightarrow> doc_id option \<Rightarrow> bool" where
  "shouldFetch collection ident = (case collection of None \<Rightarrow> True | Some c \<Rightarrow> id_truthy ident)"

text \<open>The request for the version list and the one for the versions newer than \<open>ts\<close>.\<close>

definition versionFetch :: "string \<Rightarrow> global_config option \<Rightarrow> collection_config option \<Rightarrow> doc_id option \<Rightarrow> request" where
  "versionFetch baseURL global collection ident =
     \<lparr>req_url = versionFetchURL baseURL global collection,
      req_params = Some (versionParams collection ident)\<rparr>"

definition newerVersionFetch :: "string \<Rightarrow> global_config option \<Rightarrow> collection_config option \<Rightarrow> doc_id option \<Rightarrow> jsvalue \<Rightarrow> request" where
  "newerVersionFetch baseURL global collection ident ts =
     \<lparr>req_url = versionFetchURL baseURL global collection,
      req_params = Some ((versionParams collection ident)
        \<lparr>q_and := q_and (versionParams collection ident) @ [Cond ''updatedAt'' Greater_than ts]\<rparr>)\<rparr>"

text \<open>
  The published snapshot taken from the body of the first response:
  \<open>publishedJSON?.docs?.[0]\<close> for a collection, the body itself for a global.
\<close>

definition publishedJSON_of :: "collection_config option \<Rightarrow> jsvalue \<Rightarrow> jsvalue" where
  "publishedJSON_of collection body =
     (case collection of
        None \<Rightarrow> body
      | Some c \<Rightarrow> (let docs = opt_prop body ''docs''
                   in if docs = JNull \<or> docs = JUndefined then JUndefined else index_0 docs))"

text \<open>
  \<open>getVersions\<close>: the requests made, in order, and either the error that rejected the
  promise, the state being left as it was, or the state after the three setters.
\<close>

definition getVersions :: "string \<Rightarrow> global_config option \<Rightarrow> collection_config option \<Rightarrow> doc_id option \<Rightarrow> fetch \<Rightarrow> doc_state \<Rightarrow> request list \<times> (js_error + doc_state)" where
  "getVersions baseURL global collection ident fetch st =
     (let pub = publishedFetch baseURL global collection ident;
          ver = versionFetch baseURL global collection ident
      in if \<not> shouldFetch collection ident then ([], Inr st)
         else
           (case fetch pub of
              Inl err \<Rightarrow> ([pub], Inl err)
            | Inr res1 \<Rightarrow>
           (case res_json res1 of
              Inl err \<Rightarrow> ([pub], Inl err)
            | Inr body \<Rightarrow>
           (let publishedJSON = publishedJSON_of collection body
            in if \<not> shouldFetchVersions global collection
               then ([pub], Inr \<lparr>s_publishedDoc = publishedJSON, s_versions = JNull,
                                 s_unpublishedVersions = JNull\<rparr>)
               else
           (case fetch ver of
              Inl err \<Rightarrow> ([pub, ver], Inl err)
            | Inr res2 \<Rightarrow>
           (case res_json res2 of
              Inl err \<Rightarrow> ([pub, ver], Inl err)
            | Inr versionJSON \<Rightarrow>
           (if \<not> truthy (opt_prop publishedJSON ''updatedAt'')
            then ([pub, ver], Inr \<lparr>s_publishedDoc = publishedJSON, s_versions = versionJSON,
                                   s_unpublishedVersions = JNull\<rparr>)
            else
           (let newer = newerVersionFetch baseURL global collection ident
                          (opt_prop publishedJSON ''updatedAt'')
            in case fetch newer of
                 Inl err \<Rightarrow> ([pub, ver, newer], Inl err)
               | Inr newerVersionRes \<Rightarrow>
                   (if res_status newerVersionRes = 200
                    then (case res_json newerVersionRes of
                            Inl err \<Rightarrow> ([pub, ver, newer], Inl err)
                          | Inr unpublishedVersionJSON \<Rightarrow>
                              ([pub, ver, newer],
                               Inr \<lparr>s_publishedDoc = publishedJSON, s_versions = versionJSON,
                                    s_unpublishedVersions = unpublishedVersionJSON\<rparr>))
                    else ([pub, ver, newer],
                          Inr \<lparr>s_publishedDoc = publishedJSON, s_versions = versionJSON,
                               s_unpublishedVersions = JNull\<rparr>))))))))))"

subsection \<open>The scenario of the versioned collection\<close>

text \<open>
  Modelled from the spec: the API is not part of the sources. The scenario has the
  collection \<open>posts\<close> with versions enabled, the published document \<open>42\<close> updated on
  2024-01-01 and one version of it updated on 2024-01-02. The queries use the operators
  \<open>equals\<close>, \<open>exists\<close> and \<open>greater_than\<close>; timestamps in ISO format are ordered as
  strings.
\<close>

fun string_less :: "string \<Rightarrow> string \<Rightarrow> bool" where
  "string_less [] [] = False"
| "string_less [] (y # ys) = True"
| "string_less (x # xs) [] = False"
| "string_less (x # xs) (y # ys) =
     ((of_char x :: nat) < of_char y \<or> (x = y \<and> string_less xs ys))"

fun satisfies :: "jsvalue \<Rightarrow> constraint \<Rightarrow> bool" where
  "satisfies doc (Cond k Equals v) = (get_prop doc k = v)"
| "satisfies doc (Cond k Exists v) = ((get_prop doc k \<noteq> JUndefined) = truthy v)"
| "satisfies doc (Cond k Greater_than v) =
     (case (get_prop doc k, v) of (JStr a, JStr b) \<Rightarrow> string_less b a | _ \<Rightarrow> False)"
| "satisfies doc (Or cs) = list_ex (satisfies doc) cs"

definition scenario_collection :: collection_config where
  "scenario_collection = \<lparr>c_slug = ''posts'', c_versions = JBool True\<rparr>"

definition scenario_published :: jsvalue where
  "scenario_published =
     JObj [(''id'', JStr ''42''), (''title'', JStr ''Hello''),
           (''updatedAt'', JStr ''2024-01-01T00:00:00Z'')]"

definition scenario_version :: jsvalue where
  "scenario_version =
     JObj [(''id'', JStr ''v2''), (''parent'', JStr ''42''),
           (''updatedAt'', JStr ''2024-01-02T00:00:00Z'')]"

definition scenario_fetch :: fetch where
  "scenario_fetch req =
     (let matching = (\<lambda>docs. case req_params req of
                                None \<Rightarrow> docs
                              | Some q \<Rightarrow> filter (\<lambda>d. list_all (satisfies d) (q_and q)) docs)
      in if req_url req = ''/api/posts''
         then Inr \<lparr>res_status = 200,
                   res_json = Inr (JObj [(''docs'', JArr (matching [scenario_published]))])\<rparr>
         else if req_url req = ''/api/posts/versions''
         then Inr \<lparr>res_status = 200,
                   res_json = Inr (JObj [(''docs'', JArr (matching [scenario_version]))])\<rparr>
         else Inr \<lparr>res_status = 404, res_json = Inl SyntaxError\<rparr>)"

text \<open>The same API with a versions endpoint that fails on a query for newer versions.\<close>

fun is_newer_than :: "constraint \<Rightarrow> bool" where
  "is_newer_than (Cond k Greater_than v) = (k = ''updatedAt'')"
| "is_newer_than c = False"

definition scenario_fetch_failing :: fetch where
  "scenario_fetch_failing req =
     (case req_params req of
        None \<Rightarrow> scenario_fetch req
      | Some q \<Rightarrow>
          (if list_ex is_newer_than (q_and q)
           then Inr \<lparr>res_status = 500, res_json = Inr (JObj [(''errors'', JArr [])])\<rparr>
           else scenario_fetch req))"

section \<open>Properties of the field binding\<close>

text \<open>
  Claim C3. For every field, the derived \<open>showError\<close> equals
  \<open>(valid === false) && formSubmitted\<close>; in particular \<open>showError\<close> is false whenever the form
  has not been submitted, whatever the field's validity.
\<close>

theorem showError_is_invalid_and_submitted:
  "showError (flds path) submitted = (useField_valid (flds path) = False \<and> submitted)
   \<and> (\<not> submitted \<longrightarrow> showError (flds path) submitted = False)"
  by (simp add: showError_def)

theorem showError_is_invalid_and_submitted_witness:
  "showError ([''title'' \<mapsto> \<lparr>f_value = JStr ''x'', f_initialValue = JStr ''x'',
       f_valid = JBool False, f_errorMessage = JStr ''Required''\<rparr>] ''title'') False = False
   \<and> showError ([''title'' \<mapsto> \<lparr>f_value = JStr ''x'', f_initialValue = JStr ''x'',
       f_valid = JBool False, f_errorMessage = JStr ''Required''\<rparr>] ''title'') True = True"
  using showError_is_invalid_and_submitted
    [of "[''title'' \<mapsto> \<lparr>f_value = JStr ''x'', f_initialValue = JStr ''x'',
       f_valid = JBool False, f_errorMessage = JStr ''Required''\<rparr>]" "''title''" False]
    showError_is_invalid_and_submitted
    [of "[''title'' \<mapsto> \<lparr>f_value = JStr ''x'', f_initialValue = JStr ''x'',
       f_valid = JBool False, f_errorMessage = JStr ''Required''\<rparr>]" "''title''" True]
  by simp

text \<open>
  Claim C10. When the store has no entry for the path, or the entry's \<open>valid\<close> is not a
  boolean (a field mounted and never validated), \<open>useField\<close> reports \<open>valid = true\<close>, and so
  \<open>showError = false\<close> even after the form has been submitted.
\<close>

theorem unvalidated_field_is_valid:
  "flds path = None \<or> (\<exists>f. flds path = Some f \<and> (\<forall>b. f_valid f \<noteq> JBool b))
   \<Longrightarrow> useField_valid (flds path) = True \<and> showError (flds path) True = False
       \<and> showError (flds path) submitted = False"
  by (auto simp: showError_def split: jsvalue.splits)

theorem unvalidated_field_is_valid_witness:
  "useField_valid (Map.empty ''title'') = True \<and> showError (Map.empty ''title'') True = False
   \<and> useField_valid ([''title'' \<mapsto> \<lparr>f_value = JStr ''x'', f_initialValue = JStr ''x'',
       f_valid = JUndefined, f_errorMessage = JUndefined\<rparr>] ''title'') = True
   \<and> showError ([''title'' \<mapsto> \<lparr>f_value = JStr ''x'', f_initialValue = JStr ''x'',
       f_valid = JUndefined, f_errorMessage = JUndefined\<rparr>] ''title'') True = False"
  using unvalidated_field_is_valid [of Map.empty "''title''" True]
    unvalidated_field_is_valid
    [of "[''title'' \<mapsto> \<lparr>f_value = JStr ''x'', f_initialValue = JStr ''x'',
       f_valid = JUndefined, f_errorMessage = JUndefined\<rparr>]" "''title''" True]
  by simp

subsection \<open>The reducer and the calls of \<open>setValue\<close>\<close>

lemma fieldReducer_initialValue:
  "useField_initialValue (fieldReducer flds a p) = useField_initialValue (flds p)"
  by (simp add: fieldReducer_def Let_def empty_field_def split: option.splits)

lemma fieldReducer_value:
  "a_valid a = None \<Longrightarrow> useField_value (fieldReducer flds a (a_path a)) = a_value a"
  by (simp add: fieldReducer_def Let_def)

lemma fieldReducer_valid:
  "a_valid a = Some (JBool b) \<Longrightarrow> useField_valid (fieldReducer flds a (a_path a)) = b"
  by (simp add: fieldReducer_def Let_def)

lemma apply_effect_initialValue:
  "useField_initialValue (h_fields (apply_effect h eff) p) = useField_initialValue (h_fields h p)"
  by (cases eff) (simp_all add: fieldReducer_initialValue)

lemma apply_effects_initialValue:
  "useField_initialValue (h_fields (foldl apply_effect h effs) p) = useField_initialValue (h_fields h p)"
  by (induction effs arbitrary: h) (simp_all add: apply_effect_initialValue)

lemma setValue_modified_after:
  "h_modified (foldl apply_effect h (fst (setValue opts h e d)))
     = (h_modified h \<or> (\<not> d \<and> h_setModified h))"
  by (auto simp: setValue_def Let_def)

lemma setValue_setModified_after:
  "h_setModified (foldl apply_effect h (fst (setValue opts h e d))) = h_setModified h"
  by (auto simp: setValue_def Let_def)

lemma setValue_marks:
  "[b. SetModified b \<leftarrow> fst (setValue opts h e d)]
     = (if \<not> h_modified h \<and> \<not> d \<and> h_setModified h then [True] else [])"
  by (auto simp: setValue_def Let_def)

lemma setValue_calls_marks:
  "[b. SetModified b \<leftarrow> fst (setValue_calls opts h cs)]
     = (if \<not> h_modified h \<and> h_setModified h \<and> (\<exists>c \<in> set cs. \<not> snd c) then [True] else [])"
proof (induction cs arbitrary: h)
  case Nil
  then show ?case by simp
next
  case (Cons c cs)
  obtain e d where c: "c = (e, d)" by (cases c)
  show ?case
    unfolding c
    by (simp add: Let_def Cons.IH setValue_marks setValue_modified_after setValue_setModified_after
        del: setValue_calls.simps(2) add: setValue_calls.simps(2)[unfolded Let_def])
qed


text \<open>
  Claim C4. For every field path and every argument \<open>v\<close>, \<open>setValue(v)\<close> dispatches an
  \<open>UPDATE\<close> action whose value is \<open>v.target.value\<close> when \<open>v\<close> is an event-like object with
  a target and \<open>v\<close> itself otherwise; the field's \<open>initialValue\<close> is unchanged by the update,
  and the form is marked modified exactly once, on the first call made while the form is
  unmodified, unless the second argument suppresses it. The form supplies \<open>dispatchField\<close> and
  \<open>setModified\<close>; the store's reducer is the one modelled from the spec.
\<close>

theorem setValue_dispatches_update:
  assumes "h_dispatchField h"
  shows "snd (setValue opts h v d) = None
    \<and> [a. Dispatch a \<leftarrow> fst (setValue opts h v d)]
        = [\<lparr>a_path = o_path opts,
            a_value = (if truthy v \<and> truthy (get_prop v ''target'')
                       then get_prop (get_prop v ''target'') ''value'' else v),
            a_disableFormData = o_disableFormData opts, a_validate = None,
            a_condition = None, a_valid = None, a_errorMessage = None\<rparr>]
    \<and> useField_value (h_fields (foldl apply_effect h (fst (setValue opts h v d))) (o_path opts))
        = (if truthy v \<and> truthy (get_prop v ''target'')
           then get_prop (get_prop v ''target'') ''value'' else v)
    \<and> useField_initialValue (h_fields (foldl apply_effect h (fst (setValue opts h v d))) p)
        = useField_initialValue (h_fields h p)
    \<and> [b. SetModified b \<leftarrow> fst (setValue opts h v d)]
        = (if \<not> h_modified h \<and> \<not> d \<and> h_setModified h then [True] else [])
    \<and> (h_setModified h \<and> \<not> h_modified h \<longrightarrow>
         [b. SetModified b \<leftarrow> fst (setValue_calls opts h cs)]
           = (if \<exists>c \<in> set cs. \<not> snd c then [True] else []))"
proof -
  have "snd (setValue opts h v d) = None"
    using assms by (simp add: setValue_def Let_def)
  moreover have "[a. Dispatch a \<leftarrow> fst (setValue opts h v d)]
        = [\<lparr>a_path = o_path opts,
            a_value = (if truthy v \<and> truthy (get_prop v ''target'')
                       then get_prop (get_prop v ''target'') ''value'' else v),
            a_disableFormData = o_disableFormData opts, a_validate = None,
            a_condition = None, a_valid = None, a_errorMessage = None\<rparr>]"
    using assms by (simp add: setValue_def setValue_val_def Let_def)
  moreover have "useField_value (h_fields (foldl apply_effect h (fst (setValue opts h v d))) (o_path opts))
        = (if truthy v \<and> truthy (get_prop v ''target'')
           then get_prop (get_prop v ''target'') ''value'' else v)"
    using assms by (simp add: setValue_def setValue_val_def Let_def fieldReducer_def)
  moreover note apply_effects_initialValue [of h "fst (setValue opts h v d)" p]
    setValue_marks [of opts h v d] setValue_calls_marks [of opts h cs]
  ultimately show ?thesis by simp
qed


theorem setValue_dispatches_update_witness:
  "h_dispatchField example_hooks
   \<and> [a. Dispatch a \<leftarrow> fst (setValue example_options example_hooks
          (JObj [(''target'', JObj [(''value'', JStr ''New title'')])]) False)]
       = [\<lparr>a_path = ''title'', a_value = JStr ''New title'', a_disableFormData = False,
           a_validate = None, a_condition = None, a_valid = None, a_errorMessage = None\<rparr>]
   \<and> useField_initialValue (h_fields (foldl apply_effect example_hooks
          (fst (setValue example_options example_hooks
             (JObj [(''target'', JObj [(''value'', JStr ''New title'')])]) False))) ''title'')
       = JStr ''Hello''
   \<and> [b. SetModified b \<leftarrow> fst (setValue_calls example_options example_hooks
          [(JStr ''a'', True), (JStr ''ab'', False), (JStr ''abc'', False)])] = [True]"
  using setValue_dispatches_update [where h = example_hooks and opts = example_options
      and v = "JObj [(''target'', JObj [(''value'', JStr ''New title'')])]" and d = False
      and p = "''title''" and cs = "[(JStr ''a'', True), (JStr ''ab'', False), (JStr ''abc'', False)]"]
  by (simp add: example_hooks_def example_options_def)

subsection \<open>The commit policy of the validation\<close>

lemma validateField_commit_cases:
  "validateField_commit opts h r = []
   \<or> (\<exists>a. validateField_commit opts h r = [a] \<and> a_path a = o_path opts
          \<and> a_valid a = Some (result_validity r)
          \<and> result_validity r \<noteq> JBool (useField_valid (h_fields h (o_path opts))))"
  by (cases r) (auto simp: validateField_commit_def Let_def)

lemma validateField_commit_same:
  "result_validity r = JBool (useField_valid (h_fields h (o_path opts)))
   \<Longrightarrow> validateField_commit opts h r = []"
  by (cases r) (auto simp: validateField_commit_def Let_def)

lemma validation_commits_settled:
  "\<forall>r \<in> set rs. result_validity r = JBool (useField_valid (h_fields h (o_path opts)))
   \<Longrightarrow> validation_commits opts h rs = []"
  by (induction rs) (simp_all add: validateField_commit_same Let_def)

lemma validation_commits_at_most_once:
  "\<forall>r \<in> set rs. result_validity r = JBool b \<Longrightarrow> length (validation_commits opts h rs) \<le> 1"
proof (induction rs arbitrary: h)
  case Nil
  then show ?case by simp
next
  case (Cons r rs)
  from validateField_commit_cases [of opts h r] show ?case
  proof
    assume none: "validateField_commit opts h r = []"
    then show ?thesis using Cons by (simp add: Let_def)
  next
    assume "\<exists>a. validateField_commit opts h r = [a] \<and> a_path a = o_path opts
          \<and> a_valid a = Some (result_validity r)
          \<and> result_validity r \<noteq> JBool (useField_valid (h_fields h (o_path opts)))"
    then obtain a where a: "validateField_commit opts h r = [a]" "a_path a = o_path opts"
      "a_valid a = Some (result_validity r)" by blast
    let ?h = "h\<lparr>h_fields := foldl fieldReducer (h_fields h) [a]\<rparr>"
    have "a_valid a = Some (JBool b)" using a(3) Cons.prems by simp
    then have "useField_valid (h_fields ?h (o_path opts)) = b"
      using fieldReducer_valid [of a b "h_fields h"] a(2) by simp
    then have "validation_commits opts ?h rs = []"
      using Cons.prems by (intro validation_commits_settled) simp
    then show ?thesis using a(1) by (simp add: Let_def)
  qed
qed


text \<open>
  Claim C1. When the validation completes, an \<open>UPDATE\<close> action is dispatched only if the
  computed validity differs from the validity committed before: repeated validations whose
  results have one and the same validity commit at most once, and an error message that
  changes while the field stays invalid is dropped. The validator keeps its contract (it
  resolves to a boolean or a string); the store's reducer is the one modelled from the spec.
\<close>

theorem validation_commit_policy:
  "(validateField_commit opts h r = []
     \<or> (\<exists>a. validateField_commit opts h r = [a] \<and> a_valid a = Some (result_validity r)
            \<and> result_validity r \<noteq> JBool (useField_valid (h_fields h (o_path opts)))))
   \<and> (validateField opts h = Inr acts \<longrightarrow>
        acts = [] \<or> (\<exists>a. acts = [a]
            \<and> a_valid a \<noteq> Some (JBool (useField_valid (h_fields h (o_path opts))))))
   \<and> ((\<forall>r \<in> set rs. result_validity r = JBool b) \<longrightarrow>
        length (validation_commits opts h rs) \<le> 1)
   \<and> (useField_valid (h_fields h (o_path opts)) = False \<longrightarrow>
        validateField_commit opts h (JStr m) = [])"
proof -
  have 1: "validateField_commit opts h r = []
     \<or> (\<exists>a. validateField_commit opts h r = [a] \<and> a_valid a = Some (result_validity r)
            \<and> result_validity r \<noteq> JBool (useField_valid (h_fields h (o_path opts))))" for r
    using validateField_commit_cases [of opts h r] by blast
  have 2: "acts = [] \<or> (\<exists>a. acts = [a]
            \<and> a_valid a \<noteq> Some (JBool (useField_valid (h_fields h (o_path opts)))))"
    if "validateField opts h = Inr acts"
  proof -
    from that obtain r' where "acts = validateField_commit opts h r'"
      by (auto simp: validateField_def Let_def split: sum.splits)
    then show ?thesis using 1 [of r'] by auto
  qed
  have 3: "validateField_commit opts h (JStr m) = []"
    if "useField_valid (h_fields h (o_path opts)) = False"
    using that by (intro validateField_commit_same) simp
  show ?thesis
    using 1 [of r] 2 3 validation_commits_at_most_once [of rs b opts h] by blast
qed

theorem validation_commit_policy_witness:
  "validateField example_options example_hooks
     = Inr [\<lparr>a_path = ''title'', a_value = JStr [], a_disableFormData = False,
              a_validate = Some (Some example_validate), a_condition = Some None,
              a_valid = Some (JBool False),
              a_errorMessage = Some (JStr ''This field is required.'')\<rparr>]
   \<and> length (validation_commits example_options example_hooks
        [JStr ''This field is required.'', JStr ''Still required.'', JBool False]) \<le> 1
   \<and> useField_valid (h_fields (example_hooks\<lparr>h_fields := [''title'' \<mapsto>
          \<lparr>f_value = JStr [], f_initialValue = JStr ''Hello'', f_valid = JBool False,
           f_errorMessage = JStr ''This field is required.''\<rparr>]\<rparr>) ''title'') = False
   \<and> validateField_commit example_options (example_hooks\<lparr>h_fields := [''title'' \<mapsto>
          \<lparr>f_value = JStr [], f_initialValue = JStr ''Hello'', f_valid = JBool False,
           f_errorMessage = JStr ''This field is required.''\<rparr>]\<rparr>) (JStr ''Still required.'') = []"
  using validation_commit_policy [where opts = example_options and h = example_hooks
      and rs = "[JStr ''This field is required.'', JStr ''Still required.'', JBool False]"
      and b = False]
    validation_commit_policy [where opts = example_options
      and h = "example_hooks\<lparr>h_fields := [''title'' \<mapsto>
          \<lparr>f_value = JStr [], f_initialValue = JStr ''Hello'', f_valid = JBool False,
           f_errorMessage = JStr ''This field is required.''\<rparr>]\<rparr>"
      and m = "''Still required.''"]
  by (simp add: example_hooks_def example_options_def example_validate_def validateField_def
      validateField_commit_def)

section \<open>Properties of the document info provider\<close>

subsection \<open>The digits of a numeric id\<close>

lemma of_char_digit_char: "d < 10 \<Longrightarrow> (of_char (digit_char d) :: nat) = 48 + d"
  by (simp add: digit_char_def)

lemma is_digit_digit_char: "d < 10 \<Longrightarrow> is_digit (digit_char d)"
  by (simp add: is_digit_def of_char_digit_char)

lemma digit_char_zero: "d < 10 \<Longrightarrow> digit_char d = CHR ''0'' \<longleftrightarrow> d = 0"
proof -
  assume d: "d < 10"
  have "digit_char d = CHR ''0'' \<longleftrightarrow> (of_char (digit_char d) :: nat) = of_char CHR ''0''"
    by (metis of_char_eq_iff)
  then show ?thesis using d by (simp add: of_char_digit_char)
qed

lemma digits_value_snoc:
  "digits_value (ds @ [c]) = 10 * digits_value ds + (of_char c - 48)"
  by (simp add: digits_value_def)

lemma nat_to_decimal_small: "n div 10 = 0 \<Longrightarrow> nat_to_decimal n acc = digit_char n # acc"
  by (subst nat_to_decimal.simps) simp

lemma nat_to_decimal_step:
  "n div 10 \<noteq> 0 \<Longrightarrow> nat_to_decimal n acc = nat_to_decimal (n div 10) (digit_char (n mod 10) # acc)"
  by (subst nat_to_decimal.simps) simp

lemma nat_to_decimal_acc: "nat_to_decimal n acc = nat_to_decimal n [] @ acc"
proof (induction n arbitrary: acc rule: less_induct)
  case (less n)
  show ?case
  proof (cases "n div 10 = 0")
    case True
    then show ?thesis by (simp add: nat_to_decimal_small)
  next
    case False
    then have lt: "n div 10 < n" by auto
    have "nat_to_decimal n acc = nat_to_decimal (n div 10) [] @ digit_char (n mod 10) # acc"
      using less.IH [OF lt, of "digit_char (n mod 10) # acc"] False
      by (simp add: nat_to_decimal_step)
    moreover have "nat_to_decimal n [] = nat_to_decimal (n div 10) [] @ [digit_char (n mod 10)]"
      using less.IH [OF lt, of "[digit_char (n mod 10)]"] False
      by (simp add: nat_to_decimal_step)
    ultimately show ?thesis by simp
  qed
qed

lemma nat_to_decimal_snoc:
  "n div 10 \<noteq> 0 \<Longrightarrow> nat_to_decimal n [] = nat_to_decimal (n div 10) [] @ [digit_char (n mod 10)]"
  using nat_to_decimal_acc [of "n div 10" "[digit_char (n mod 10)]"]
  by (simp add: nat_to_decimal_step)

lemma nat_to_decimal_digits:
  "list_all is_digit (nat_to_decimal n []) \<and> digits_value (nat_to_decimal n []) = n
   \<and> nat_to_decimal n [] \<noteq> [] \<and> (n \<noteq> 0 \<longrightarrow> hd (nat_to_decimal n []) \<noteq> CHR ''0'')"
proof (induction n rule: less_induct)
  case (less n)
  show ?case
  proof (cases "n div 10 = 0")
    case True
    then have n: "n < 10" by auto
    show ?thesis
      using True n
      by (simp add: nat_to_decimal_small is_digit_digit_char digit_char_zero digits_value_def
          of_char_digit_char)
  next
    case False
    then have lt: "n div 10 < n" by auto
    have m: "n mod 10 < 10" by simp
    note IH = less.IH [OF lt]
    show ?thesis
      using IH False m
      by (simp add: nat_to_decimal_snoc is_digit_digit_char digits_value_snoc of_char_digit_char)
  qed
qed


lemma nat_to_decimal_1024: "nat_to_decimal 1024 [] = ''1024''"
  by code_simp

lemma nat_to_decimal_7: "nat_to_decimal 7 [] = ''7''"
  by code_simp

lemma Number_toString_safe:
  assumes "\<bar>n\<bar> < 2 ^ 53"
  shows "\<exists>ds. Number_toString n = Some ((if n < 0 then ''-'' else []) @ ds)
    \<and> list_all is_digit ds \<and> int (digits_value ds) = \<bar>n\<bar> \<and> (n \<noteq> 0 \<longrightarrow> hd ds \<noteq> CHR ''0'')"
proof (cases "0 \<le> n")
  case True
  then show ?thesis
    using assms nat_to_decimal_digits [of "nat n"]
    by (intro exI [of _ "nat_to_decimal (nat n) []"]) (simp add: Number_toString_def)
next
  case False
  then show ?thesis
    using assms nat_to_decimal_digits [of "nat (- n)"]
    by (intro exI [of _ "nat_to_decimal (nat (- n)) []"]) (simp add: Number_toString_def)
qed

subsection \<open>The preference key\<close>

text \<open>
  Claim C9. The exposed preference key is \<open>global-<slug>\<close> for a global descriptor and
  \<open>collection-<slug>-<id>\<close> for a collection descriptor with an id; for a collection
  descriptor without an id no preference key is defined. The provider is given either a
  global or a collection, and "with an id" is the source's test \<open>if (id)\<close>. A string id
  is printed as it is. A numeric id that is a safe integer is printed as a minus sign, when
  it is negative, and the decimal digits of its absolute value, without a leading zero.
\<close>

theorem preferencesKey_cases:
  "preferencesKey (Some g) None ident = Some (Some (''global-'' @ g_slug g))
   \<and> (s \<noteq> [] \<longrightarrow>
        preferencesKey None (Some c) (Some (IdString s))
          = Some (Some (''collection-'' @ c_slug c @ ''-'' @ s)))
   \<and> (n \<noteq> 0 \<and> \<bar>n\<bar> < 2 ^ 53 \<longrightarrow>
        (\<exists>ds. preferencesKey None (Some c) (Some (IdNumber n))
                = Some (Some (''collection-'' @ c_slug c @ ''-''
                              @ (if n < 0 then ''-'' else []) @ ds))
            \<and> list_all is_digit ds \<and> int (digits_value ds) = \<bar>n\<bar> \<and> hd ds \<noteq> CHR ''0''))
   \<and> (\<not> id_truthy ident \<longrightarrow> preferencesKey None (Some c) ident = Some None)"
proof (intro conjI impI)
  show "preferencesKey (Some g) None ident = Some (Some (''global-'' @ g_slug g))"
    by (simp add: preferencesKey_def documentInfo_keys_def)
next
  assume "s \<noteq> []"
  then show "preferencesKey None (Some c) (Some (IdString s))
          = Some (Some (''collection-'' @ c_slug c @ ''-'' @ s))"
    by (simp add: preferencesKey_def documentInfo_keys_def)
next
  assume n: "n \<noteq> 0 \<and> \<bar>n\<bar> < 2 ^ 53"
  then obtain ds where ds: "Number_toString n = Some ((if n < 0 then ''-'' else []) @ ds)"
    "list_all is_digit ds" "int (digits_value ds) = \<bar>n\<bar>" "hd ds \<noteq> CHR ''0''"
    using Number_toString_safe [of n] by auto
  have "preferencesKey None (Some c) (Some (IdNumber n))
      = Some (Some (''collection-'' @ c_slug c @ ''-'' @ (if n < 0 then ''-'' else []) @ ds))"
    using n ds(1) by (simp add: preferencesKey_def documentInfo_keys_def)
  then show "\<exists>ds. preferencesKey None (Some c) (Some (IdNumber n))
                = Some (Some (''collection-'' @ c_slug c @ ''-''
                              @ (if n < 0 then ''-'' else []) @ ds))
            \<and> list_all is_digit ds \<and> int (digits_value ds) = \<bar>n\<bar> \<and> hd ds \<noteq> CHR ''0''"
    using ds(2,3,4) by blast
next
  assume "\<not> id_truthy ident"
  then show "preferencesKey None (Some c) ident = Some None"
    by (simp add: preferencesKey_def documentInfo_keys_def)
qed

theorem preferencesKey_cases_witness:
  "(1024 :: int) \<noteq> 0 \<and> \<bar>1024 :: int\<bar> < 2 ^ 53 \<and> \<bar>- 7 :: int\<bar> < 2 ^ 53
   \<and> preferencesKey (Some \<lparr>g_slug = ''header'', g_versions = JBool False\<rparr>) None None
       = Some (Some ''global-header'')
   \<and> preferencesKey None (Some \<lparr>c_slug = ''posts'', c_versions = JBool True\<rparr>)
        (Some (IdString ''42'')) = Some (Some ''collection-posts-42'')
   \<and> preferencesKey None (Some \<lparr>c_slug = ''posts'', c_versions = JBool True\<rparr>)
        (Some (IdNumber 1024)) = Some (Some ''collection-posts-1024'')
   \<and> preferencesKey None (Some \<lparr>c_slug = ''posts'', c_versions = JBool True\<rparr>)
        (Some (IdNumber (- 7))) = Some (Some ''collection-posts--7'')
   \<and> preferencesKey None (Some \<lparr>c_slug = ''posts'', c_versions = JBool True\<rparr>)
        (Some (IdNumber 0)) = Some None
   \<and> preferencesKey None (Some \<lparr>c_slug = ''posts'', c_versions = JBool True\<rparr>) None
       = Some None"
  using preferencesKey_cases
    [where g = "\<lparr>g_slug = ''header'', g_versions = JBool False\<rparr>" and ident = None
       and s = "''42''" and c = "\<lparr>c_slug = ''posts'', c_versions = JBool True\<rparr>"
       and n = 1024]
    preferencesKey_cases
    [where g = "\<lparr>g_slug = ''header'', g_versions = JBool False\<rparr>"
       and ident = "Some (IdNumber 0)"
       and s = "''42''" and c = "\<lparr>c_slug = ''posts'', c_versions = JBool True\<rparr>"
       and n = "- 7"]
  by (simp add: preferencesKey_def documentInfo_keys_def Number_toString_def
      nat_to_decimal_1024 nat_to_decimal_7)

subsection \<open>The requests of \<open>getVersions\<close>\<close>

lemma getVersions_no_fetch:
  "\<not> shouldFetch collection ident \<Longrightarrow> getVersions baseURL global collection ident fetch st = ([], Inr st)"
  by (simp add: getVersions_def Let_def)

lemma publishedFetch_not_newer:
  "req_params (publishedFetch baseURL global collection ident) = Some q
   \<Longrightarrow> Cond ''updatedAt'' Greater_than ts \<notin> set (q_and q)"
  by (auto simp: publishedFetch_def publishedVersionParams_def split: option.splits)

lemma versionFetch_not_newer:
  "req_params (versionFetch baseURL global collection ident) = Some q
   \<Longrightarrow> Cond ''updatedAt'' Greater_than ts \<notin> set (q_and q)"
  by (auto simp: versionFetch_def versionParams_def split: option.splits)

lemma newerVersionFetch_timestamp:
  "req_params (newerVersionFetch baseURL global collection ident ts0) = Some q
   \<Longrightarrow> Cond ''updatedAt'' Greater_than ts \<in> set (q_and q) \<Longrightarrow> ts = ts0"
  by (auto simp: newerVersionFetch_def versionParams_def split: option.splits)

lemma newer_query_in_requests:
  assumes "req \<in> set (fst (getVersions baseURL global collection ident fetch st))"
    and "req_params req = Some q"
    and "Cond ''updatedAt'' Greater_than ts \<in> set (q_and q)"
  shows "req = newerVersionFetch baseURL global collection ident ts
    \<and> truthy ts \<and> shouldFetchVersions global collection
    \<and> (\<exists>res body. fetch (publishedFetch baseURL global collection ident) = Inr res
          \<and> res_json res = Inr body
          \<and> ts = opt_prop (publishedJSON_of collection body) ''updatedAt'')"
  using assms
  by (auto simp: getVersions_def Let_def split: if_splits sum.splits
      dest: publishedFetch_not_newer versionFetch_not_newer newerVersionFetch_timestamp)

lemma getVersions_reaches_drafts:
  assumes "shouldFetch collection ident \<and> shouldFetchVersions global collection
        \<and> fetch (publishedFetch baseURL global collection ident) = Inr pubRes
        \<and> res_json pubRes = Inr body
        \<and> fetch (versionFetch baseURL global collection ident) = Inr verRes
        \<and> res_json verRes = Inr versionJSON
        \<and> truthy (opt_prop (publishedJSON_of collection body) ''updatedAt'')
        \<and> fetch (newerVersionFetch baseURL global collection ident
              (opt_prop (publishedJSON_of collection body) ''updatedAt'')) = Inr newerRes"
  shows "fst (getVersions baseURL global collection ident fetch st)
            = [publishedFetch baseURL global collection ident,
               versionFetch baseURL global collection ident,
               newerVersionFetch baseURL global collection ident
                 (opt_prop (publishedJSON_of collection body) ''updatedAt'')]
          \<and> (res_status newerRes \<noteq> 200 \<longrightarrow>
               snd (getVersions baseURL global collection ident fetch st)
                 = Inr \<lparr>s_publishedDoc = publishedJSON_of collection body,
                        s_versions = versionJSON, s_unpublishedVersions = JNull\<rparr>)
          \<and> (res_status newerRes = 200 \<and> res_json newerRes = Inr b \<longrightarrow>
               snd (getVersions baseURL global collection ident fetch st)
                 = Inr \<lparr>s_publishedDoc = publishedJSON_of collection body,
                        s_versions = versionJSON, s_unpublishedVersions = b\<rparr>)"
  using assms by (simp add: getVersions_def Let_def split: sum.splits)

subsection \<open>The scenario, evaluated\<close>

lemma scenario_run:
  "getVersions ''/api'' None (Some scenario_collection) (Some (IdString ''42'')) scenario_fetch
     initial_doc_state
   = ([publishedFetch ''/api'' None (Some scenario_collection) (Some (IdString ''42'')),
       versionFetch ''/api'' None (Some scenario_collection) (Some (IdString ''42'')),
       newerVersionFetch ''/api'' None (Some scenario_collection) (Some (IdString ''42''))
         (JStr ''2024-01-01T00:00:00Z'')],
      Inr \<lparr>s_publishedDoc = scenario_published,
           s_versions = JObj [(''docs'', JArr [scenario_version])],
           s_unpublishedVersions = JObj [(''docs'', JArr [scenario_version])]\<rparr>)"
  by code_simp

lemma scenario_published_updatedAt:
  "opt_prop (publishedJSON_of (Some scenario_collection) (JObj [(''docs'', JArr [scenario_published])]))
     ''updatedAt'' = JStr ''2024-01-01T00:00:00Z''"
  by code_simp

lemma scenario_updatedAt:
  "opt_prop scenario_published ''updatedAt'' = JStr ''2024-01-01T00:00:00Z''"
  by code_simp

lemma scenario_published_snapshot:
  "publishedJSON_of (Some scenario_collection) (JObj [(''docs'', JArr [scenario_published])])
     = scenario_published"
  by code_simp

lemma scenario_shouldFetch:
  "shouldFetch (Some scenario_collection) (Some (IdString ''42''))
   \<and> shouldFetchVersions None (Some scenario_collection)"
  by code_simp

lemma scenario_failing_published:
  "scenario_fetch_failing (publishedFetch ''/api'' None (Some scenario_collection) (Some (IdString ''42'')))
     = Inr \<lparr>res_status = 200, res_json = Inr (JObj [(''docs'', JArr [scenario_published])])\<rparr>"
  by code_simp

lemma scenario_failing_versions:
  "scenario_fetch_failing (versionFetch ''/api'' None (Some scenario_collection) (Some (IdString ''42'')))
     = Inr \<lparr>res_status = 200, res_json = Inr (JObj [(''docs'', JArr [scenario_version])])\<rparr>"
  by code_simp

lemma scenario_failing_newer:
  "scenario_fetch_failing (newerVersionFetch ''/api'' None (Some scenario_collection)
       (Some (IdString ''42'')) (JStr ''2024-01-01T00:00:00Z''))
     = Inr \<lparr>res_status = 500, res_json = Inr (JObj [(''errors'', JArr [])])\<rparr>"
  by code_simp

text \<open>
  Claim C5. \<open>getVersions\<close> issues the query for newer versions only when the published
  snapshot it fetched has an \<open>updatedAt\<close>, and the query asks for the versions whose
  \<open>updatedAt\<close> is \<open>greater_than\<close> that timestamp; a response whose status is not 200 leaves
  \<open>unpublishedVersions\<close> null and is no error, a 200 response stores its body. In the scenario
  the one newer version is in \<open>unpublishedVersions\<close> and the published document's
  \<open>updatedAt\<close> is the published timestamp.
\<close>

theorem getVersions_drafts_probe:
  "(\<forall>req \<in> set (fst (getVersions baseURL global collection ident fetch st)). \<forall>q ts.
       req_params req = Some q \<and> Cond ''updatedAt'' Greater_than ts \<in> set (q_and q) \<longrightarrow>
         req = newerVersionFetch baseURL global collection ident ts \<and> truthy ts
         \<and> (\<exists>res body. fetch (publishedFetch baseURL global collection ident) = Inr res
               \<and> res_json res = Inr body
               \<and> ts = opt_prop (publishedJSON_of collection body) ''updatedAt''))
   \<and> (shouldFetch collection ident \<and> shouldFetchVersions global collection
        \<and> fetch (publishedFetch baseURL global collection ident) = Inr pubRes
        \<and> res_json pubRes = Inr body
        \<and> fetch (versionFetch baseURL global collection ident) = Inr verRes
        \<and> res_json verRes = Inr versionJSON
        \<and> truthy (opt_prop (publishedJSON_of collection body) ''updatedAt'')
        \<and> fetch (newerVersionFetch baseURL global collection ident
              (opt_prop (publishedJSON_of collection body) ''updatedAt'')) = Inr newerRes \<longrightarrow>
          fst (getVersions baseURL global collection ident fetch st)
            = [publishedFetch baseURL global collection ident,
               versionFetch baseURL global collection ident,
               newerVersionFetch baseURL global collection ident
                 (opt_prop (publishedJSON_of collection body) ''updatedAt'')]
          \<and> (res_status newerRes \<noteq> 200 \<longrightarrow>
               snd (getVersions baseURL global collection ident fetch st)
                 = Inr \<lparr>s_publishedDoc = publishedJSON_of collection body,
                        s_versions = versionJSON, s_unpublishedVersions = JNull\<rparr>)
          \<and> (res_status newerRes = 200 \<and> res_json newerRes = Inr b \<longrightarrow>
               snd (getVersions baseURL global collection ident fetch st)
                 = Inr \<lparr>s_publishedDoc = publishedJSON_of collection body,
                        s_versions = versionJSON, s_unpublishedVersions = b\<rparr>))
   \<and> snd (getVersions ''/api'' None (Some scenario_collection) (Some (IdString ''42''))
          scenario_fetch initial_doc_state)
       = Inr \<lparr>s_publishedDoc = scenario_published,
              s_versions = JObj [(''docs'', JArr [scenario_version])],
              s_unpublishedVersions = JObj [(''docs'', JArr [scenario_version])]\<rparr>
   \<and> get_prop scenario_published ''updatedAt'' = JStr ''2024-01-01T00:00:00Z''"
proof (intro conjI)
  show "\<forall>req \<in> set (fst (getVersions baseURL global collection ident fetch st)). \<forall>q ts.
       req_params req = Some q \<and> Cond ''updatedAt'' Greater_than ts \<in> set (q_and q) \<longrightarrow>
         req = newerVersionFetch baseURL global collection ident ts \<and> truthy ts
         \<and> (\<exists>res body. fetch (publishedFetch baseURL global collection ident) = Inr res
               \<and> res_json res = Inr body
               \<and> ts = opt_prop (publishedJSON_of collection body) ''updatedAt'')"
    using newer_query_in_requests [of _ baseURL global collection ident fetch st] by blast
next
  show "get_prop scenario_published ''updatedAt'' = JStr ''2024-01-01T00:00:00Z''"
    by (simp add: scenario_published_def)
next
  show "snd (getVersions ''/api'' None (Some scenario_collection) (Some (IdString ''42''))
          scenario_fetch initial_doc_state)
       = Inr \<lparr>s_publishedDoc = scenario_published,
              s_versions = JObj [(''docs'', JArr [scenario_version])],
              s_unpublishedVersions = JObj [(''docs'', JArr [scenario_version])]\<rparr>"
    by (simp only: scenario_run snd_conv)
qed (rule impI, erule getVersions_reaches_drafts)

theorem getVersions_drafts_probe_witness:
  "truthy (JStr ''2024-01-01T00:00:00Z'')
   \<and> fst (getVersions ''/api'' None (Some scenario_collection) (Some (IdString ''42''))
          scenario_fetch_failing initial_doc_state)
       = [publishedFetch ''/api'' None (Some scenario_collection) (Some (IdString ''42'')),
          versionFetch ''/api'' None (Some scenario_collection) (Some (IdString ''42'')),
          newerVersionFetch ''/api'' None (Some scenario_collection) (Some (IdString ''42''))
            (JStr ''2024-01-01T00:00:00Z'')]
   \<and> snd (getVersions ''/api'' None (Some scenario_collection) (Some (IdString ''42''))
          scenario_fetch_failing initial_doc_state)
       = Inr \<lparr>s_publishedDoc = scenario_published,
              s_versions = JObj [(''docs'', JArr [scenario_version])],
              s_unpublishedVersions = JNull\<rparr>
   \<and> snd (getVersions ''/api'' None (Some scenario_collection) (Some (IdString ''42''))
          scenario_fetch initial_doc_state)
       = Inr \<lparr>s_publishedDoc = scenario_published,
              s_versions = JObj [(''docs'', JArr [scenario_version])],
              s_unpublishedVersions = JObj [(''docs'', JArr [scenario_version])]\<rparr>"
proof -
  have hyps: "shouldFetch (Some scenario_collection) (Some (IdString ''42''))
    \<and> shouldFetchVersions None (Some scenario_collection)
    \<and> scenario_fetch_failing
          (publishedFetch ''/api'' None (Some scenario_collection) (Some (IdString ''42'')))
        = Inr \<lparr>res_status = 200, res_json = Inr (JObj [(''docs'', JArr [scenario_published])])\<rparr>
    \<and> res_json \<lparr>res_status = 200, res_json = Inr (JObj [(''docs'', JArr [scenario_published])])\<rparr>
        = Inr (JObj [(''docs'', JArr [scenario_published])])
    \<and> scenario_fetch_failing
          (versionFetch ''/api'' None (Some scenario_collection) (Some (IdString ''42'')))
        = Inr \<lparr>res_status = 200, res_json = Inr (JObj [(''docs'', JArr [scenario_version])])\<rparr>
    \<and> res_json \<lparr>res_status = 200, res_json = Inr (JObj [(''docs'', JArr [scenario_version])])\<rparr>
        = Inr (JObj [(''docs'', JArr [scenario_version])])
    \<and> truthy (opt_prop (publishedJSON_of (Some scenario_collection)
          (JObj [(''docs'', JArr [scenario_published])])) ''updatedAt'')
    \<and> scenario_fetch_failing
          (newerVersionFetch ''/api'' None (Some scenario_collection) (Some (IdString ''42''))
             (opt_prop (publishedJSON_of (Some scenario_collection)
                (JObj [(''docs'', JArr [scenario_published])])) ''updatedAt''))
        = Inr \<lparr>res_status = 500, res_json = Inr (JObj [(''errors'', JArr [])])\<rparr>"
    using scenario_shouldFetch scenario_failing_published scenario_failing_versions
      scenario_failing_newer
    by (simp only: scenario_published_updatedAt truthy.simps select_convs) simp
  from getVersions_drafts_probe [where baseURL = "''/api''" and global = None
      and collection = "Some scenario_collection" and ident = "Some (IdString ''42'')"
      and fetch = scenario_fetch_failing and st = initial_doc_state
      and pubRes = "\<lparr>res_status = 200, res_json = Inr (JObj [(''docs'', JArr [scenario_published])])\<rparr>"
      and body = "JObj [(''docs'', JArr [scenario_published])]"
      and verRes = "\<lparr>res_status = 200, res_json = Inr (JObj [(''docs'', JArr [scenario_version])])\<rparr>"
      and versionJSON = "JObj [(''docs'', JArr [scenario_version])]"
      and newerRes = "\<lparr>res_status = 500, res_json = Inr (JObj [(''errors'', JArr [])])\<rparr>",
      THEN conjunct2, THEN conjunct1, THEN mp, OF hyps]
  have "fst (getVersions ''/api'' None (Some scenario_collection) (Some (IdString ''42''))
          scenario_fetch_failing initial_doc_state)
       = [publishedFetch ''/api'' None (Some scenario_collection) (Some (IdString ''42'')),
          versionFetch ''/api'' None (Some scenario_collection) (Some (IdString ''42'')),
          newerVersionFetch ''/api'' None (Some scenario_collection) (Some (IdString ''42''))
            (JStr ''2024-01-01T00:00:00Z'')]
   \<and> snd (getVersions ''/api'' None (Some scenario_collection) (Some (IdString ''42''))
          scenario_fetch_failing initial_doc_state)
       = Inr \<lparr>s_publishedDoc = scenario_published,
              s_versions = JObj [(''docs'', JArr [scenario_version])],
              s_unpublishedVersions = JNull\<rparr>"
    by (simp add: scenario_published_updatedAt scenario_published_snapshot scenario_updatedAt)
  then show ?thesis by (simp add: scenario_run)
qed

text \<open>
  Claim C6. For a collection with no document id (a new, unsaved document) \<open>getVersions\<close>
  performs no fetch at all, and \<open>publishedDoc\<close>, \<open>versions\<close> and \<open>unpublishedVersions\<close>
  all remain unset (null).
\<close>

theorem getVersions_new_document:
  "getVersions baseURL global (Some c) None fetch st = ([], Inr st)
   \<and> (\<not> id_truthy ident \<longrightarrow> getVersions baseURL global (Some c) ident fetch st = ([], Inr st))
   \<and> getVersions baseURL global (Some c) None fetch initial_doc_state
       = ([], Inr \<lparr>s_publishedDoc = JNull, s_versions = JNull, s_unpublishedVersions = JNull\<rparr>)"
  using getVersions_no_fetch [of "Some c" None baseURL global fetch]
    getVersions_no_fetch [of "Some c" ident baseURL global fetch st]
  by (simp add: shouldFetch_def initial_doc_state_def)

theorem getVersions_new_document_witness:
  "\<not> id_truthy (Some (IdString []))
   \<and> getVersions ''/api'' None (Some scenario_collection) None scenario_fetch initial_doc_state
       = ([], Inr \<lparr>s_publishedDoc = JNull, s_versions = JNull, s_unpublishedVersions = JNull\<rparr>)
   \<and> getVersions ''/api'' None (Some scenario_collection) (Some (IdString [])) scenario_fetch
        initial_doc_state = ([], Inr initial_doc_state)"
  using getVersions_new_document [where baseURL = "''/api''" and global = None
      and c = scenario_collection and fetch = scenario_fetch and st = initial_doc_state
      and ident = "Some (IdString [])"]
  by (simp add: initial_doc_state_def)

section \<open>Properties of the rich text field\<close>

subsection \<open>A string that is not JSON\<close>

lemma JSON_parse_not_valid_json: "JSON_parse ''not valid json'' = Inl SyntaxError"
  by code_simp

text \<open>The serialised default document, with \<open>CHR 0x22\<close> for the double quote, parses back.\<close>

lemma JSON_parse_default_document:
  "JSON_parse (''[{'' @ [CHR 0x22] @ ''children'' @ [CHR 0x22] @ '':[{'' @ [CHR 0x22] @ ''text''
      @ [CHR 0x22] @ '':'' @ [CHR 0x22, CHR 0x22] @ ''}]}]'') = Inr defaultValue"
  by code_simp

lemma JSON_parse_empty: "JSON_parse [] = Inl SyntaxError"
  by (simp add: JSON_parse_def)

lemma valueToRender_failed_parse:
  "JSON_parse s = Inl err \<Longrightarrow> valueToRender (JStr s) = Inr (if s = [] then defaultValue else JStr s)"
  by (simp add: valueToRender_def)

text \<open>
  Claim C2. When the value of the rich text field is a string that fails JSON parsing, such
  as \<open>"not valid json"\<close>, no exception is raised and the value handed to the editor falls
  back to the default empty-document tree. Evaluated at that string: the parse throws, the
  catch block swallows the error, the string is truthy and is not replaced, and the editor
  is handed the string itself, which is neither the default tree nor a list of nodes.
\<close>

theorem valueToRender_not_valid_json:
  "JSON_parse ''not valid json'' = Inl SyntaxError
   \<and> valueToRender (JStr ''not valid json'') = Inr (JStr ''not valid json'')
   \<and> valueToRender (JStr ''not valid json'') \<noteq> Inr defaultValue
   \<and> \<not> Array_isArray (JStr ''not valid json'')
   \<and> Array_isArray defaultValue"
  using valueToRender_failed_parse [OF JSON_parse_not_valid_json] JSON_parse_not_valid_json
  by (simp add: defaultValue_def)

subsection \<open>Backspace in a list item\<close>

lemma descendant_append:
  "q \<noteq> [] \<Longrightarrow> r \<noteq> [] \<Longrightarrow>
     descendant ns (q @ r) =
       (case descendant ns q of Some (Element t cs) \<Rightarrow> descendant cs r | _ \<Rightarrow> None)"
proof (induction ns q rule: descendant.induct)
  case (1 ns)
  then show ?case by simp
next
  case (2 ns k)
  then obtain j p where r: "r = j # p" by (cases r) auto
  show ?case by (simp add: r split: node.splits)
next
  case (3 ns k j p)
  then show ?case by (simp split: node.splits)
qed

lemma descendant_child:
  assumes "q \<noteq> []" and "descendant ns q = Some (Element t cs)" and "i < length cs"
  shows "descendant ns (q @ [i]) = Some (cs ! i)"
  using assms by (simp add: descendant_append)

lemma lowest_match_text: "ns ! j = Text s ms \<Longrightarrow> lowest_match m ns [j] = None"
  by simp

lemma lowest_match_item:
  assumes "i < length items" and "items ! i = Element t' cs" and "\<not> m (Element t' cs)"
    and "j < length cs" and "cs ! j = Text s ms"
  shows "lowest_match m items [i, j] = None"
  using assms by simp

lemma lowest_match_list:
  assumes "q \<noteq> []" and "descendant ns q = Some (Element t items)" and "m (Element t items)"
    and "i < length items" and "items ! i = Element t' cs" and "\<not> m (Element t' cs)"
    and "j < length cs" and "cs ! j = Text s ms"
  shows "lowest_match m ns (q @ [i, j]) = Some q"
  using assms
proof (induction ns q rule: descendant.induct)
  case (1 ns)
  then show ?case by simp
next
  case (2 ns k)
  then have k: "k < length ns" "ns ! k = Element t items"
    by (auto split: if_splits)
  have "lowest_match m items [i, j] = None"
    using "2.prems" by (intro lowest_match_item) auto
  then show ?case using k "2.prems"(3) by simp
next
  case (3 ns k j' p)
  from "3.prems"(2) obtain t0 cs0 where k: "k < length ns" "ns ! k = Element t0 cs0"
    and d: "descendant cs0 (j' # p) = Some (Element t items)"
    by (auto split: if_splits node.splits)
  have "lowest_match m cs0 ((j' # p) @ [i, j]) = Some (j' # p)"
    using "3.IH" [OF k(1) k(2) _ d] "3.prems" by simp
  then show ?case using k by simp
qed

lemma leaves_take_nth_drop:
  "k < length ns \<Longrightarrow>
     leaves (take k ns) @ leaves_node (ns ! k) @ leaves (drop (Suc k) ns) = leaves ns"
proof -
  assume "k < length ns"
  then have "ns = take k ns @ [ns ! k] @ drop (Suc k) ns"
    by (simp add: id_take_nth_drop)
  then have "leaves ns = leaves (take k ns @ [ns ! k] @ drop (Suc k) ns)" by simp
  then show ?thesis by (simp add: leaves_def)
qed

lemma leaves_update:
  "k < length ns \<Longrightarrow> leaves_node x = leaves_node (ns ! k) \<Longrightarrow> leaves (ns[k := x]) = leaves ns"
proof -
  assume k: "k < length ns" and x: "leaves_node x = leaves_node (ns ! k)"
  have "leaves (ns[k := x]) = leaves (take k ns) @ leaves_node x @ leaves (drop (Suc k) ns)"
    using k by (simp add: upd_conv_take_nth_drop leaves_def)
  then show ?thesis using k x by (simp add: leaves_take_nth_drop)
qed

lemma splice_leaves:
  "descendant ns q = Some n \<Longrightarrow> leaves new = leaves_node n \<Longrightarrow> leaves (splice ns q new) = leaves ns"
proof (induction ns q new rule: splice.induct)
  case (1 ns new)
  then show ?case by simp
next
  case (2 ns k new)
  then have k: "k < length ns" and n: "n = ns ! k" by (auto split: if_splits)
  have "leaves (splice ns [k] new) = leaves (take k ns) @ leaves new @ leaves (drop (Suc k) ns)"
    using k by (simp add: leaves_def)
  then show ?case using k n "2.prems"(2) by (simp add: leaves_take_nth_drop)
next
  case (3 ns k j p new)
  from "3.prems"(1) obtain t cs where k: "k < length ns" "ns ! k = Element t cs"
    and d: "descendant cs (j # p) = Some n"
    by (auto split: if_splits node.splits)
  have "leaves (splice cs (j # p) new) = leaves cs"
    using "3.IH" [OF k(1) k(2) d "3.prems"(2)] .
  then have "leaves_node (Element t (splice cs (j # p) new)) = leaves_node (ns ! k)"
    using k(2) by (simp add: leaves_def)
  then show ?case using k by (simp add: leaves_update)
qed

lemma lifted_leaves:
  "i < length items \<Longrightarrow> leaves (lifted t items i) = leaves_node (Element t items)"
proof -
  assume i: "i < length items"
  have "leaves (lifted t items i)
      = leaves (take i items) @ leaves_node (items ! i) @ leaves (drop (Suc i) items)"
    using i by (auto simp: lifted_def leaves_def)
  then show ?thesis using i by (simp add: leaves_take_nth_drop) (simp add: leaves_def)
qed

lemma lifted_items:
  assumes "i < length items" and "is_listType types (Element t items)"
    and "\<not> is_listType types (items ! i)"
  shows "concat (map (items_of types) (lifted t items i)) = items"
proof -
  have item: "items_of types (items ! i) = [items ! i]"
    using assms(3) by (cases "items ! i") auto
  have piece: "items_of types (Element t xs) = xs" for xs
    using assms(2) by (cases t) auto
  have "concat (map (items_of types) (lifted t items i))
      = take i items @ [items ! i] @ drop (Suc i) items"
    using assms(1) by (auto simp: lifted_def item piece simp del: items_of.simps)
  then show ?thesis using assms(1) by (simp add: id_take_nth_drop [symmetric])
qed

lemma unwrapNodes_list_item:
  assumes "ed_selection ed = Some pt" and "pt_path pt = q @ [i, j]" and "q \<noteq> []"
    and "descendant (ed_children ed) q = Some (Element t items)"
    and "is_listType types (Element t items)"
    and "i < length items" and "items ! i = Element t' cs"
    and "\<not> is_listType types (Element t' cs)"
    and "j < length cs" and "cs ! j = Text s ms"
  shows "unwrapNodes types ed =
    ed\<lparr>ed_children := splice (ed_children ed) q (lifted t items i),
       ed_selection := Some (pt\<lparr>pt_path := butlast q @ [last q + (if i = 0 then 0 else 1), j]\<rparr>)\<rparr>"
proof -
  have "lowest_match (is_listType types) (ed_children ed) (q @ [i, j]) = Some q"
    using assms(3-10) by (rule lowest_match_list)
  then show ?thesis
    using assms(1,2,4,6) by (simp add: unwrapNodes_def nth_append)
qed

lemma onKeyDown_Backspace_list_item:
  assumes "ed_selection ed = Some pt" and "pt_path pt = q @ [i, j]" and "q \<noteq> []"
    and "descendant (ed_children ed) q = Some (Element t items)"
    and "i < length items" and "items ! i = Element (Some ''li'') cs"
    and "j < length cs" and "cs ! j = Text s ms" and "length s = 1"
  shows "onKeyDown_Backspace listTypes isVoid ed = Inr [UnwrapNodes listTypes True, SetNodes []]"
proof -
  have item: "descendant (ed_children ed) (q @ [i]) = Some (Element (Some ''li'') cs)"
    using descendant_child [OF assms(3,4,5)] assms(6) by simp
  have "descendant (ed_children ed) ((q @ [i]) @ [j]) = Some (cs ! j)"
    using item assms(7) by (intro descendant_child) auto
  then have leaf: "descendant (ed_children ed) (q @ [i, j]) = Some (Text s ms)"
    using assms(8) by simp
  have "butlast (q @ [i, j]) = q @ [i]" by (simp add: butlast_append)
  then show ?thesis
    using assms(1,2,9) item leaf by (simp add: onKeyDown_Backspace_def)
qed

text \<open>
  Claim C7. When Backspace is pressed at offset 1 on the last remaining character of a
  text inside a list item, the editor unwraps the enclosing list around the item: the item
  is promoted out of the list, a list with that single item disappears, a list with more
  items is split at the item (into the items before and the items after it, each part only
  when it is not empty), and no sibling item is deleted. Here the item is the child \<open>i\<close> of
  the list at path \<open>q\<close>, the cursor is in the item's text \<open>j\<close>, and \<open>li\<close> is not itself a
  list type. The handler tests the length of the text and not the offset, so the statement
  holds for every offset; \<open>setNodes\<close> is called with no property and changes nothing.
\<close>

theorem backspace_unwraps_list_item:
  assumes "ed_selection ed = Some pt" and "pt_path pt = q @ [i, j]" and "q \<noteq> []"
    and "descendant (ed_children ed) q = Some (Element (Some t) items)"
    and "t \<in> set listTypes" and "''li'' \<notin> set listTypes"
    and "i < length items" and "items ! i = Element (Some ''li'') cs"
    and "j < length cs" and "cs ! j = Text s ms" and "length s = 1"
  shows "onKeyDown_Backspace listTypes isVoid ed = Inr [UnwrapNodes listTypes True, SetNodes []]
    \<and> after_Backspace listTypes isVoid ed = Inr (Some (unwrapNodes listTypes ed))
    \<and> ed_children (unwrapNodes listTypes ed)
        = splice (ed_children ed) q (lifted (Some t) items i)
    \<and> (length items = 1 \<longrightarrow> lifted (Some t) items i = [items ! i])
    \<and> (i = 0 \<and> 1 < length items \<longrightarrow>
         lifted (Some t) items i = [items ! i, Element (Some t) (drop 1 items)])
    \<and> (0 < i \<and> Suc i = length items \<longrightarrow>
         lifted (Some t) items i = [Element (Some t) (take i items), items ! i])
    \<and> (0 < i \<and> Suc i < length items \<longrightarrow>
         lifted (Some t) items i
           = [Element (Some t) (take i items), items ! i, Element (Some t) (drop (Suc i) items)])
    \<and> concat (map (items_of listTypes) (lifted (Some t) items i)) = items
    \<and> leaves (ed_children (unwrapNodes listTypes ed)) = leaves (ed_children ed)"
proof -
  have lst: "is_listType listTypes (Element (Some t) items)"
    using assms(5) by simp
  have itm: "\<not> is_listType listTypes (Element (Some ''li'') cs)"
    using assms(6) by simp
  have key: "onKeyDown_Backspace listTypes isVoid ed = Inr [UnwrapNodes listTypes True, SetNodes []]"
    using assms(1,2,3,4,7,8,9,10,11) by (rule onKeyDown_Backspace_list_item)
  have "unwrapNodes listTypes ed =
    ed\<lparr>ed_children := splice (ed_children ed) q (lifted (Some t) items i),
       ed_selection := Some (pt\<lparr>pt_path := butlast q @ [last q + (if i = 0 then 0 else 1), j]\<rparr>)\<rparr>"
    using assms(1,2,3,4) lst assms(7,8) itm assms(9,10) by (rule unwrapNodes_list_item)
  then have tree: "ed_children (unwrapNodes listTypes ed)
        = splice (ed_children ed) q (lifted (Some t) items i)"
    by simp
  have kept: "concat (map (items_of listTypes) (lifted (Some t) items i)) = items"
    using assms(7) lst itm assms(8) by (intro lifted_items) simp_all
  have "leaves (splice (ed_children ed) q (lifted (Some t) items i)) = leaves (ed_children ed)"
    using assms(4) lifted_leaves [OF assms(7), of "Some t"] by (rule splice_leaves)
  then have texts: "leaves (ed_children (unwrapNodes listTypes ed)) = leaves (ed_children ed)"
    using tree by simp
  have shapes: "(length items = 1 \<longrightarrow> lifted (Some t) items i = [items ! i])
    \<and> (i = 0 \<and> 1 < length items \<longrightarrow>
         lifted (Some t) items i = [items ! i, Element (Some t) (drop 1 items)])
    \<and> (0 < i \<and> Suc i = length items \<longrightarrow>
         lifted (Some t) items i = [Element (Some t) (take i items), items ! i])
    \<and> (0 < i \<and> Suc i < length items \<longrightarrow>
         lifted (Some t) items i
           = [Element (Some t) (take i items), items ! i, Element (Some t) (drop (Suc i) items)])"
    using assms(7) by (auto simp: lifted_def)
  have after: "after_Backspace listTypes isVoid ed = Inr (Some (unwrapNodes listTypes ed))"
    using key by (simp add: after_Backspace_def)
  show ?thesis using key after tree kept texts shapes by simp
qed

theorem backspace_unwraps_list_item_witness:
  "onKeyDown_Backspace [''ol'', ''ul''] (\<lambda>n. False) example_editor
     = Inr [UnwrapNodes [''ol'', ''ul''] True, SetNodes []]
   \<and> after_Backspace [''ol'', ''ul''] (\<lambda>n. False) example_editor
     = Inr (Some (unwrapNodes [''ol'', ''ul''] example_editor))
   \<and> ed_children (unwrapNodes [''ol'', ''ul''] example_editor)
       = [Element None [Text ''Intro'' []],
          Element (Some ''ul'') [Element (Some ''li'') [Text ''one'' []]],
          Element (Some ''li'') [Text ''2'' []],
          Element (Some ''ul'') [Element (Some ''li'') [Text ''three'' [''bold'']]]]
   \<and> leaves (ed_children (unwrapNodes [''ol'', ''ul''] example_editor))
       = leaves (ed_children example_editor)"
  using backspace_unwraps_list_item [where ed = example_editor
      and pt = "\<lparr>pt_path = [1, 1, 0], pt_offset = 1\<rparr>" and q = "[1]" and i = 1 and j = 0
      and t = "''ul''" and listTypes = "[''ol'', ''ul'']"
      and items = "[Element (Some ''li'') [Text ''one'' []],
            Element (Some ''li'') [Text ''2'' []],
            Element (Some ''li'') [Text ''three'' [''bold'']]]"
      and cs = "[Text ''2'' []]" and s = "''2''" and ms = "[]" and isVoid = "\<lambda>n. False"]
  by (simp add: example_editor_def lifted_def leaves_def)

subsection \<open>Leaving read-only mode\<close>

text \<open>
  Claim C8. Entering read-only mode makes every button, link and \<open>role=button\<close> element
  of the toolbar and the editor non-focusable and, for buttons, disabled; leaving the mode
  or unmounting reverses this, restoring the controls to focusable and enabled. Evaluated
  on a toolbar with one enabled button: after the cleanup the button carries
  \<open>disabled="null"\<close>, and a button with a \<open>disabled\<close> attribute is disabled.
\<close>

theorem readOnly_exit_leaves_button_disabled:
  "readOnly_effect True True example_dom
     = Inr \<lparr>toolbarRef = Some [\<lparr>el_tagName = ''BUTTON'',
                el_attributes = [(''type'', ''button''), (''tabindex'', ''-1''),
                                 (''disabled'', ''disabled'')]\<rparr>],
            editorRef = Some [\<lparr>el_tagName = ''A'',
                el_attributes = [(''href'', ''/admin''), (''tabindex'', ''-1'')]\<rparr>]\<rparr>
   \<and> readOnly_enter_then_exit example_dom
     = Inr \<lparr>toolbarRef = Some [\<lparr>el_tagName = ''BUTTON'',
                el_attributes = [(''type'', ''button''), (''tabindex'', ''0''),
                                 (''disabled'', ''null'')]\<rparr>],
            editorRef = Some [\<lparr>el_tagName = ''A'',
                el_attributes = [(''href'', ''/admin''), (''tabindex'', ''0'')]\<rparr>]\<rparr>
   \<and> \<not> is_disabled \<lparr>el_tagName = ''BUTTON'', el_attributes = [(''type'', ''button'')]\<rparr>
   \<and> is_disabled \<lparr>el_tagName = ''BUTTON'',
         el_attributes = [(''type'', ''button''), (''tabindex'', ''0''), (''disabled'', ''null'')]\<rparr>"
  by code_simp

end
